theory Spec2Isabelle
  imports Complex_Main
begin

section \<open>Values, errors and hyperparameter objects\<close>

text \<open>
  The module \<^verbatim>\<open>tensor2tensor/models/research/rl.py\<close> builds hyperparameter presets
  (objects of TensorFlow's \<^verbatim>\<open>HParams\<close> class), environment factories and policy network
  bodies. Python values that occur as hyperparameters are modelled by \<open>pyval\<close>. A float
  is written \<open>PFloat r\<close> with the real number \<open>r\<close> that its literal denotes; the value
  that Python computes with is the double nearest to \<open>r\<close>.
\<close>

datatype pyval =
    PNone
  | PBool bool
  | PInt int
  | PFloat real
  | PStr string
  | PTuple "pyval list"
  | PList "pyval list"

datatype error =
    ValueError string
  | KeyError string
  | AttributeError string
  | TypeError string
  | IndexError string
  | LookupError string
  | ZeroDivisionError string
  | OverflowError string
  | InvalidArgumentError string    \<comment> \<open>raised when the graph runs\<close>

text \<open>
  An \<^verbatim>\<open>HParams\<close> object has instance attributes (\<open>attrs\<close>) and a private table
  \<^verbatim>\<open>_hparam_types\<close> of the registered hyperparameters: for each name the type of the
  value and whether it is multi-valued. A plain attribute assignment \<^verbatim>\<open>hparams.x = v\<close>
  only writes \<open>attrs\<close>.
\<close>

datatype ptype = TNone | TBool | TInt | TFloat | TStr | TTuple | TList

record hparams_obj =
  attrs :: "string \<rightharpoonup> pyval"
  hparam_types :: "string \<rightharpoonup> (ptype \<times> bool)"

fun type_of :: "pyval \<Rightarrow> ptype" where
  "type_of PNone = TNone"
| "type_of (PBool _) = TBool"
| "type_of (PInt _) = TInt"
| "type_of (PFloat _) = TFloat"
| "type_of (PStr _) = TStr"
| "type_of (PTuple _) = TTuple"
| "type_of (PList _) = TList"

text \<open>\<^verbatim>\<open>getattr(obj, name, default)\<close> and \<^verbatim>\<open>obj.name\<close>.\<close>

definition getattr_default :: "hparams_obj \<Rightarrow> string \<Rightarrow> pyval \<Rightarrow> pyval" where
  "getattr_default obj name dflt = (case attrs obj name of None \<Rightarrow> dflt | Some v \<Rightarrow> v)"

definition getattr_py :: "hparams_obj \<Rightarrow> string \<Rightarrow> error + pyval" where
  "getattr_py obj name = (case attrs obj name of None \<Rightarrow> Inl (AttributeError name) | Some v \<Rightarrow> Inr v)"

text \<open>\<^verbatim>\<open>setattr(obj, name, value)\<close>, the effect of \<^verbatim>\<open>obj.name = value\<close>.\<close>

definition setattr_py :: "string \<Rightarrow> pyval \<Rightarrow> hparams_obj \<Rightarrow> hparams_obj" where
  "setattr_py name v obj = obj\<lparr>attrs := (attrs obj)(name \<mapsto> v)\<rparr>"

section \<open>Floating-point numbers\<close>

text \<open>
  Tensors of logits hold 32-bit floats and Python computes with 64-bit floats. A float is
  not-a-number, an infinity or a finite real number (the two zeros are not told apart). A
  format is given by its precision in bits and its largest exponent; rounding a real
  number to a format is to the nearest number of the format, to the even one of two
  nearest, and a result beyond the largest finite number is an infinity.
\<close>

datatype fl = NaN | MInf | Fin real | PInf

record format =
  precision :: nat
  emax :: int

definition binary32 :: format where
  "binary32 = \<lparr>precision = 24, emax = 127\<rparr>"

definition binary64 :: format where
  "binary64 = \<lparr>precision = 53, emax = 1023\<rparr>"

definition pow2 :: "int \<Rightarrow> real" where
  "pow2 k = (if 0 \<le> k then 2 ^ nat k else 1 / 2 ^ nat (- k))"

text \<open>Rounding to the nearest integer, a tie to the even one.\<close>

definition rne :: "real \<Rightarrow> int" where
  "rne q = (let f = \<lfloor>q\<rfloor>; d = q - of_int f in
            if d < 1 / 2 then f else if 1 / 2 < d then f + 1
            else if even f then f else f + 1)"

text \<open>
  The exponent of \<open>x\<close> in a format (that of the smallest normal number for a subnormal
  \<open>x\<close>), the distance \<open>ulp\<close> between the numbers of the format around \<open>x\<close>, and
  rounding.
\<close>

definition exponent :: "format \<Rightarrow> real \<Rightarrow> int" where
  "exponent fmt x = max \<lfloor>log 2 \<bar>x\<bar>\<rfloor> (1 - emax fmt)"

definition ulp :: "format \<Rightarrow> real \<Rightarrow> real" where
  "ulp fmt x = pow2 (exponent fmt x - (int (precision fmt) - 1))"

definition round_real :: "format \<Rightarrow> real \<Rightarrow> real" where
  "round_real fmt x = (if x = 0 then 0 else of_int (rne (x / ulp fmt x)) * ulp fmt x)"

definition to_float :: "format \<Rightarrow> real \<Rightarrow> fl" where
  "to_float fmt x =
     (let r = round_real fmt x in
      if pow2 (emax fmt + 1) \<le> r then PInf
      else if r \<le> - pow2 (emax fmt + 1) then MInf
      else Fin r)"


text \<open>The comparisons \<open><\<close> and \<open>\<le>\<close> of floats, false whenever an operand is not a number.\<close>

fun fl_less :: "fl \<Rightarrow> fl \<Rightarrow> bool" where
  "fl_less (Fin x) (Fin y) = (x < y)"
| "fl_less (Fin x) PInf = True"
| "fl_less MInf (Fin y) = True"
| "fl_less MInf PInf = True"
| "fl_less _ _ = False"


text \<open>\<^verbatim>\<open>tf.minimum(x, y)\<close> is documented as \<^verbatim>\<open>x < y ? x : y\<close>.\<close>

definition fl_minimum :: "fl \<Rightarrow> fl \<Rightarrow> fl" where
  "fl_minimum x y = (if fl_less x y then x else y)"

text \<open>Subtraction in a format, and conversion of a float to a format.\<close>

fun fl_sub :: "format \<Rightarrow> fl \<Rightarrow> fl \<Rightarrow> fl" where
  "fl_sub fmt (Fin x) (Fin y) = to_float fmt (x - y)"
| "fl_sub fmt NaN _ = NaN"
| "fl_sub fmt _ NaN = NaN"
| "fl_sub fmt PInf PInf = NaN"
| "fl_sub fmt MInf MInf = NaN"
| "fl_sub fmt PInf _ = PInf"
| "fl_sub fmt MInf _ = MInf"
| "fl_sub fmt (Fin x) PInf = MInf"
| "fl_sub fmt (Fin x) MInf = PInf"

fun convert :: "format \<Rightarrow> fl \<Rightarrow> fl" where
  "convert fmt (Fin x) = to_float fmt x"
| "convert fmt v = v"

section \<open>Tensors\<close>

text \<open>
  A tensor carries its static shape as the graph knows it (\<open>None\<close> for an unknown rank,
  and \<open>None\<close> inside the list for an unknown dimension), the shape it has when the graph
  runs, and its entries in row-major order. Entries are 32-bit floats.
\<close>

record tensor =
  static_shape :: "nat option list option"
  shape :: "nat list"
  entries :: "fl list"

text \<open>
  \<^verbatim>\<open>tf.reduce_min(logits)\<close> over all axes. On a tensor with no entries the result is the
  initial value of the reduction, which no entry is compared with: \<open>None\<close> stands for it.
\<close>

definition reduce_min :: "tensor \<Rightarrow> fl option" where
  "reduce_min t =
     (case entries t of [] \<Rightarrow> None | x # xs \<Rightarrow> Some (fold (\<lambda>y m. fl_minimum y m) xs x))"

text \<open>
  \<^verbatim>\<open>t - s\<close> and \<^verbatim>\<open>tf.minimum(t, s)\<close> for a scalar \<open>s\<close>, broadcast over the entries and
  computed in 32-bit floats.
\<close>

definition sub_scalar :: "tensor \<Rightarrow> fl \<Rightarrow> tensor" where
  "sub_scalar t s = t\<lparr>entries := map (\<lambda>x. fl_sub binary32 x s) (entries t)\<rparr>"

definition minimum_scalar :: "tensor \<Rightarrow> fl \<Rightarrow> tensor" where
  "minimum_scalar t s = t\<lparr>entries := map (\<lambda>x. fl_minimum x s) (entries t)\<rparr>"

section \<open>Clipping of logits\<close>

text \<open>The number that a Python value is written as, when it is a number.\<close>

fun num_val :: "pyval \<Rightarrow> real option" where
  "num_val (PFloat x) = Some x"
| "num_val (PInt i) = Some (of_int i)"
| "num_val (PBool b) = Some (if b then 1 else 0)"
| "num_val _ = None"

text \<open>
  The comparison \<^verbatim>\<open>logits_clip > 0\<close> of Python 3: a float compares by its value as a
  double, an integer (or a boolean, which is an integer) by its value, and any other
  value raises a TypeError.
\<close>

fun py_gt_zero :: "pyval \<Rightarrow> error + bool" where
  "py_gt_zero (PFloat r) = Inr (fl_less (Fin 0) (to_float binary64 r))"
| "py_gt_zero (PInt i) = Inr (0 < i)"
| "py_gt_zero (PBool b) = Inr b"
| "py_gt_zero _ = Inl (TypeError ''>'')"

text \<open>
  \<^verbatim>\<open>tf.minimum\<close> converts the Python number \<^verbatim>\<open>logits_clip\<close> to a 32-bit float tensor:
  the double of a float is rounded once more, an integer is rounded to a 32-bit float.
\<close>

fun to_float32_scalar :: "pyval \<Rightarrow> error + fl" where
  "to_float32_scalar (PFloat r) = Inr (convert binary32 (to_float binary64 r))"
| "to_float32_scalar (PInt i) = Inr (to_float binary32 (of_int i))"
| "to_float32_scalar (PBool b) = Inr (Fin (if b then 1 else 0))"
| "to_float32_scalar _ = Inl (TypeError ''Expected float32'')"

text \<open>
  \<^verbatim>\<open>
  def clip_logits(logits, config):
    logits_clip = getattr(config, "logits_clip", 0.)
    if logits_clip > 0:
      min_logit = tf.reduce_min(logits)
      return tf.minimum(logits - min_logit, logits_clip)
    else:
      return logits
  \<close>
  For a tensor without entries, subtracting the minimum and clamping touch no entry: the
  tensor comes back with its shape.
\<close>

definition clip_logits :: "tensor \<Rightarrow> hparams_obj \<Rightarrow> error + tensor" where
  "clip_logits logits config =
     (let logits_clip = getattr_default config ''logits_clip'' (PFloat 0) in
      case py_gt_zero logits_clip of
        Inl e \<Rightarrow> Inl e
      | Inr positive \<Rightarrow>
          if positive then
            (case reduce_min logits of
               None \<Rightarrow> Inr logits
             | Some min_logit \<Rightarrow>
                 (case to_float32_scalar logits_clip of
                    Inl e \<Rightarrow> Inl e
                  | Inr threshold \<Rightarrow>
                      Inr (minimum_scalar (sub_scalar logits min_logit) threshold)))
          else Inr logits)"


section \<open>The \<^verbatim>\<open>HParams\<close> class\<close>

text \<open>
  The two methods of TensorFlow's \<^verbatim>\<open>HParams\<close> that the presets call. Names of the
  class's own methods, which \<^verbatim>\<open>add_hparam\<close> also refuses, are not part of the model:
  no name in this module is one.
  \<^verbatim>\<open>
  def add_hparam(self, name, value):
    if getattr(self, name, None) is not None:
      raise ValueError('Hyperparameter name is reserved: %s' % name)
    if isinstance(value, (list, tuple)):
      if not value:
        raise ValueError('Multi-valued hyperparameters cannot be empty: %s' % name)
      self._hparam_types[name] = (type(value[0]), True)
    else:
      self._hparam_types[name] = (type(value), False)
    setattr(self, name, value)
  \<close>
\<close>

fun seq_items :: "pyval \<Rightarrow> pyval list option" where
  "seq_items (PList xs) = Some xs"
| "seq_items (PTuple xs) = Some xs"
| "seq_items _ = None"

definition register_type :: "string \<Rightarrow> ptype \<times> bool \<Rightarrow> hparams_obj \<Rightarrow> hparams_obj" where
  "register_type name ty obj = obj\<lparr>hparam_types := (hparam_types obj)(name \<mapsto> ty)\<rparr>"

definition add_hparam :: "string \<Rightarrow> pyval \<Rightarrow> hparams_obj \<Rightarrow> error + hparams_obj" where
  "add_hparam name v obj =
     (if getattr_default obj name PNone \<noteq> PNone
      then Inl (ValueError ''Hyperparameter name is reserved'')
      else case seq_items v of
          Some [] \<Rightarrow> Inl (ValueError ''Multi-valued hyperparameters cannot be empty'')
        | Some (x # _) \<Rightarrow> Inr (setattr_py name v (register_type name (type_of x, True) obj))
        | None \<Rightarrow> Inr (setattr_py name v (register_type name (type_of v, False) obj)))"

text \<open>
  \<^verbatim>\<open>
  def set_hparam(self, name, value):
    param_type, is_list = self._hparam_types[name]
    if isinstance(value, list):
      if not is_list:
        raise ValueError('Must not pass a list for single-valued parameter: %s' % name)
      setattr(self, name, [
          _cast_to_type_if_compatible(name, param_type, v) for v in value])
    else:
      if is_list:
        raise ValueError('Must pass a list for multi-valued parameter: %s.' % name)
      setattr(self, name, _cast_to_type_if_compatible(name, param_type, value))
  \<close>
  The cast refuses a non-string for a string parameter, mixing booleans with other types,
  a non-integer for an integer parameter and a non-number for a numeric parameter, and
  otherwise applies the parameter's type to the value.
\<close>

definition is_integral :: "ptype \<Rightarrow> bool" where
  "is_integral t \<longleftrightarrow> t = TInt \<or> t = TBool"

definition is_number :: "ptype \<Rightarrow> bool" where
  "is_number t \<longleftrightarrow> t = TInt \<or> t = TBool \<or> t = TFloat"

fun apply_type :: "ptype \<Rightarrow> pyval \<Rightarrow> error + pyval" where
  "apply_type TInt (PInt i) = Inr (PInt i)"
| "apply_type TInt (PBool b) = Inr (PInt (if b then 1 else 0))"
| "apply_type TFloat (PInt i) = Inr (PFloat (of_int i))"
| "apply_type TFloat (PFloat x) = Inr (PFloat x)"
| "apply_type TFloat (PBool b) = Inr (PFloat (if b then 1 else 0))"
| "apply_type TBool (PBool b) = Inr (PBool b)"
| "apply_type TStr (PStr s) = Inr (PStr s)"
| "apply_type TTuple (PTuple xs) = Inr (PTuple xs)"
| "apply_type TTuple (PList xs) = Inr (PTuple xs)"
| "apply_type TTuple (PStr s) = Inr (PTuple (map (\<lambda>c. PStr [c]) s))"
| "apply_type TList (PTuple xs) = Inr (PList xs)"
| "apply_type TList (PList xs) = Inr (PList xs)"
| "apply_type TList (PStr s) = Inr (PList (map (\<lambda>c. PStr [c]) s))"
| "apply_type _ _ = Inl (TypeError ''cast'')"

definition cast_to_type_if_compatible :: "ptype \<Rightarrow> pyval \<Rightarrow> error + pyval" where
  "cast_to_type_if_compatible param_type v =
     (if param_type = TNone then Inr v
      else if param_type = TStr \<and> type_of v \<noteq> TStr then Inl (ValueError ''Could not parse'')
      else if (param_type = TBool) \<noteq> (type_of v = TBool) then Inl (ValueError ''Could not parse'')
      else if is_integral param_type \<and> \<not> is_integral (type_of v)
        then Inl (ValueError ''Could not parse'')
      else if is_number param_type \<and> \<not> is_number (type_of v)
        then Inl (ValueError ''Could not parse'')
      else apply_type param_type v)"

fun cast_all :: "ptype \<Rightarrow> pyval list \<Rightarrow> error + pyval list" where
  "cast_all param_type [] = Inr []"
| "cast_all param_type (v # vs) =
     (case cast_to_type_if_compatible param_type v of
        Inl e \<Rightarrow> Inl e
      | Inr v' \<Rightarrow> (case cast_all param_type vs of Inl e \<Rightarrow> Inl e | Inr vs' \<Rightarrow> Inr (v' # vs')))"

definition set_hparam :: "string \<Rightarrow> pyval \<Rightarrow> hparams_obj \<Rightarrow> error + hparams_obj" where
  "set_hparam name v obj =
     (case hparam_types obj name of
        None \<Rightarrow> Inl (KeyError name)
      | Some (param_type, is_list) \<Rightarrow>
          (case v of
             PList vs \<Rightarrow>
               if \<not> is_list
               then Inl (ValueError ''Must not pass a list for single-valued parameter'')
               else (case cast_all param_type vs of
                       Inl e \<Rightarrow> Inl e
                     | Inr vs' \<Rightarrow> Inr (setattr_py name (PList vs') obj))
           | _ \<Rightarrow>
               if is_list
               then Inl (ValueError ''Must pass a list for multi-valued parameter'')
               else (case cast_to_type_if_compatible param_type v of
                       Inl e \<Rightarrow> Inl e
                     | Inr v' \<Rightarrow> Inr (setattr_py name v' obj))))"

section \<open>Objects in a store\<close>

text \<open>
  Presets are Python objects that the preset functions mutate in place, so objects live
  in a store: a reference is an index into the list of all objects constructed so far,
  and constructing an object appends to the list. A computation takes the store and
  returns the store it leaves, with its result or the exception it raised.
\<close>

type_synonym ref = nat
type_synonym heap = "hparams_obj list"
type_synonym 'a prog = "heap \<Rightarrow> (error + 'a) \<times> heap"

text \<open>The three statements that occur in the preset functions, on the object \<open>hparams\<close>.\<close>

datatype stmt =
    Assign string pyval        \<comment> \<open>\<^verbatim>\<open>hparams.name = value\<close>\<close>
  | Add_hparam string pyval    \<comment> \<open>\<^verbatim>\<open>hparams.add_hparam(name, value)\<close>\<close>
  | Set_hparam string pyval    \<comment> \<open>\<^verbatim>\<open>hparams.set_hparam(name, value)\<close>\<close>

fun stmt_name :: "stmt \<Rightarrow> string" where
  "stmt_name (Assign n _) = n"
| "stmt_name (Add_hparam n _) = n"
| "stmt_name (Set_hparam n _) = n"

fun exec_obj :: "stmt \<Rightarrow> hparams_obj \<Rightarrow> error + hparams_obj" where
  "exec_obj (Assign n v) obj = Inr (setattr_py n v obj)"
| "exec_obj (Add_hparam n v) obj = add_hparam n v obj"
| "exec_obj (Set_hparam n v) obj = set_hparam n v obj"

text \<open>
  A statement updates the object at \<open>hparams\<close> in place, or raises and leaves it. The
  reference always comes from the construction that precedes the statements, so it is an
  index of the store.
\<close>

definition exec_stmt :: "ref \<Rightarrow> stmt \<Rightarrow> heap \<Rightarrow> error option \<times> heap" where
  "exec_stmt hparams st h =
     (case exec_obj st (h ! hparams) of
        Inl e \<Rightarrow> (Some e, h)
      | Inr obj \<Rightarrow> (None, h[hparams := obj]))"

fun exec_stmts :: "ref \<Rightarrow> stmt list \<Rightarrow> heap \<Rightarrow> error option \<times> heap" where
  "exec_stmts hparams [] h = (None, h)"
| "exec_stmts hparams (st # sts) h =
     (case exec_stmt hparams st h of
        (Some e, h') \<Rightarrow> (Some e, h')
      | (None, h') \<Rightarrow> exec_stmts hparams sts h')"

text \<open>
  The shape of every derived preset function:
  \<^verbatim>\<open>hparams = base(); <statements on hparams>; return hparams\<close>.
\<close>

definition derive :: "ref prog \<Rightarrow> stmt list \<Rightarrow> ref prog" where
  "derive base sts h =
     (case base h of
        (Inl e, h1) \<Rightarrow> (Inl e, h1)
      | (Inr hparams, h1) \<Rightarrow>
          (case exec_stmts hparams sts h1 of
             (Some e, h2) \<Rightarrow> (Inl e, h2)
           | (None, h2) \<Rightarrow> (Inr hparams, h2)))"

text \<open>
  \<^verbatim>\<open>tf.contrib.training.HParams(**kwargs)\<close> constructs a new object and adds every keyword
  argument with \<^verbatim>\<open>add_hparam\<close>. Keyword names are distinct, so the order in which they
  are added does not change the object; the model adds them in the order written.
\<close>

definition new_object :: "hparams_obj \<Rightarrow> ref prog" where
  "new_object obj h = (Inr (length h), h @ [obj])"

definition HParams :: "(string \<times> pyval) list \<Rightarrow> ref prog" where
  "HParams kwargs =
     derive (new_object \<lparr>attrs = Map.empty, hparam_types = Map.empty\<rparr>)
       (map (\<lambda>(name, v). Add_hparam name v) kwargs)"

text \<open>
  Modelled from the spec: \<^verbatim>\<open>common_hparams.basic_params1\<close> is defined in another module
  of the repository; the spec says that each preset "returns a fully-populated
  configuration object" and that "each preset function returns a fresh derived copy". It
  constructs and returns a new \<^verbatim>\<open>HParams\<close> object; the content of that object is the
  parameter \<open>bp\<close> of every preset that starts from it.
\<close>

definition basic_params1 :: "hparams_obj \<Rightarrow> ref prog" where
  "basic_params1 bp = new_object bp"

section \<open>Hyperparameter presets\<close>

definition ppo_base_v1 :: "hparams_obj \<Rightarrow> ref prog" where
  "ppo_base_v1 bp =
     derive (basic_params1 bp)
       [Assign ''learning_rate_schedule'' (PStr ''constant''),
        Assign ''learning_rate_constant'' (PFloat (1 / 10000)),
        Assign ''clip_grad_norm'' (PFloat (5 / 10)),
        Add_hparam ''lr_decay_in_final_epoch'' (PBool False),
        Add_hparam ''init_mean_factor'' (PFloat (1 / 10)),
        Add_hparam ''init_logstd'' (PFloat (1 / 10)),
        Add_hparam ''policy_layers'' (PTuple [PInt 100, PInt 100]),
        Add_hparam ''value_layers'' (PTuple [PInt 100, PInt 100]),
        Add_hparam ''clipping_coef'' (PFloat (2 / 10)),
        Add_hparam ''gae_gamma'' (PFloat (99 / 100)),
        Add_hparam ''gae_lambda'' (PFloat (95 / 100)),
        Add_hparam ''entropy_loss_coef'' (PFloat (1 / 100)),
        Add_hparam ''value_loss_coef'' (PInt 1),
        Add_hparam ''optimization_epochs'' (PInt 15),
        Add_hparam ''epoch_length'' (PInt 200),
        Add_hparam ''epochs_num'' (PInt 2000),
        Add_hparam ''eval_every_epochs'' (PInt 10),
        Add_hparam ''save_models_every_epochs'' (PInt 30),
        Add_hparam ''optimization_batch_size'' (PInt 50),
        Add_hparam ''intrinsic_reward_scale'' (PFloat 0),
        Add_hparam ''logits_clip'' (PFloat 0),
        Add_hparam ''dropout_ppo'' (PFloat (1 / 10)),
        Add_hparam ''effective_num_agents'' PNone]"

definition basic_policy_parameters :: "ref prog" where
  "basic_policy_parameters = (let wrappers = PNone in HParams [(''wrappers'', wrappers)])"

definition ppo_discrete_action_base :: "hparams_obj \<Rightarrow> ref prog" where
  "ppo_discrete_action_base bp =
     derive (ppo_base_v1 bp)
       [Add_hparam ''policy_network'' (PStr ''feed_forward_categorical_policy'')]"

definition discrete_random_action_base :: "hparams_obj \<Rightarrow> ref prog" where
  "discrete_random_action_base bp =
     derive (basic_params1 bp)
       [Add_hparam ''policy_network'' (PStr ''random_policy'')]"

definition ppo_atari_base :: "hparams_obj \<Rightarrow> ref prog" where
  "ppo_atari_base bp =
     derive (ppo_discrete_action_base bp)
       [Assign ''learning_rate_constant'' (PFloat (1 / 10000)),
        Assign ''epoch_length'' (PInt 200),
        Assign ''gae_gamma'' (PFloat (985 / 1000)),
        Assign ''gae_lambda'' (PFloat (985 / 1000)),
        Assign ''entropy_loss_coef'' (PFloat (3 / 1000)),
        Assign ''value_loss_coef'' (PInt 1),
        Assign ''optimization_epochs'' (PInt 3),
        Assign ''epochs_num'' (PInt 1000),
        Assign ''policy_network'' (PStr ''feed_forward_cnn_small_categorical_policy''),
        Assign ''clipping_coef'' (PFloat (2 / 10)),
        Assign ''optimization_batch_size'' (PInt 20),
        Assign ''clip_grad_norm'' (PFloat (5 / 10))]"

definition ppo_original_params :: "hparams_obj \<Rightarrow> ref prog" where
  "ppo_original_params bp =
     derive (ppo_atari_base bp)
       [Assign ''learning_rate_constant'' (PFloat (25 / 100000)),
        Assign ''gae_gamma'' (PFloat (99 / 100)),
        Assign ''gae_lambda'' (PFloat (95 / 100)),
        Assign ''clipping_coef'' (PFloat (1 / 10)),
        Assign ''value_loss_coef'' (PInt 1),
        Assign ''entropy_loss_coef'' (PFloat (1 / 100)),
        Assign ''eval_every_epochs'' (PInt 200),
        Assign ''dropout_ppo'' (PFloat (1 / 10)),
        Assign ''epoch_length'' (PInt 50),
        Assign ''optimization_batch_size'' (PInt 20)]"

definition ppo_pong_ae_base :: "hparams_obj \<Rightarrow> ref prog" where
  "ppo_pong_ae_base bp =
     derive (ppo_original_params bp)
       [Assign ''learning_rate_constant'' (PFloat (1 / 10000)),
        Assign ''network'' (PStr ''dense_bitwise_categorical_policy'')]"

definition dqn_atari_base :: "ref prog" where
  "dqn_atari_base =
     HParams
       [(''agent_gamma'', PFloat (99 / 100)),
        (''agent_update_horizon'', PInt 1),
        (''agent_min_replay_history'', PInt 20000),
        (''agent_update_period'', PInt 4),
        (''agent_target_update_period'', PInt 8000),
        (''agent_epsilon_train'', PFloat (1 / 100)),
        (''agent_epsilon_eval'', PFloat (1 / 1000)),
        (''agent_epsilon_decay_period'', PInt 250000),
        (''agent_generates_trainable_dones'', PBool True),
        (''optimizer_class'', PStr ''RMSProp''),
        (''optimizer_learning_rate'', PFloat (25 / 100000)),
        (''optimizer_decay'', PFloat (95 / 100)),
        (''optimizer_momentum'', PFloat 0),
        (''optimizer_epsilon'', PFloat (1 / 100000)),
        (''optimizer_centered'', PBool True),
        (''replay_buffer_replay_capacity'', PInt 1000000),
        (''replay_buffer_batch_size'', PInt 32),
        (''time_limit'', PInt 27000),
        (''save_every_steps'', PInt 50000),
        (''num_frames'', PInt 20000000)]"

definition dqn_original_params :: "ref prog" where
  "dqn_original_params =
     derive dqn_atari_base [Set_hparam ''num_frames'' (PInt 1000000)]"

definition rlmf_original :: "ref prog" where
  "rlmf_original =
     HParams
       [(''game'', PStr ''pong''),
        (''base_algo'', PStr ''ppo''),
        (''base_algo_params'', PStr ''ppo_original_params''),
        (''batch_size'', PInt 16),
        (''eval_batch_size'', PInt 2),
        (''frame_stack_size'', PInt 4),
        (''eval_sampling_temps'',
           PList [PFloat 0, PFloat (2 / 10), PFloat (5 / 10), PFloat (8 / 10), PFloat 1, PFloat 2]),
        (''eval_max_num_noops'', PInt 8),
        (''resize_height_factor'', PInt 2),
        (''resize_width_factor'', PInt 2),
        (''grayscale'', PInt 0),
        (''rl_env_max_episode_steps'', PInt (- 1))]"

definition rlmf_base :: "ref prog" where
  "rlmf_base =
     derive rlmf_original
       [Add_hparam ''ppo_epochs_num'' (PInt 3000),
        Add_hparam ''ppo_eval_every_epochs'' (PInt 100)]"

definition rlmf_tiny :: "ref prog" where
  "rlmf_tiny =
     derive rlmf_base
       [Assign ''ppo_epochs_num'' (PInt 100),
        Assign ''ppo_eval_every_epochs'' (PInt 10)]"

section \<open>Notions for reasoning about presets\<close>

text \<open>
  The statements of a preset function only touch the object \<open>hparams\<close>, so their effect
  on that object can be computed without the store. The pair returned is the exception,
  if one was raised, and the object as the statements left it.
\<close>

fun exec_objs :: "stmt list \<Rightarrow> hparams_obj \<Rightarrow> error option \<times> hparams_obj" where
  "exec_objs [] obj = (None, obj)"
| "exec_objs (st # sts) obj =
     (case exec_obj st obj of Inl e \<Rightarrow> (Some e, obj) | Inr obj' \<Rightarrow> exec_objs sts obj')"

text \<open>
  \<open>builds P obj\<close>: from every store, \<open>P\<close> returns a reference to one newly constructed
  object with content \<open>obj\<close> and leaves every object that existed before as it was.
\<close>

definition builds :: "ref prog \<Rightarrow> hparams_obj \<Rightarrow> bool" where
  "builds P obj \<longleftrightarrow> (\<forall>h. P h = (Inr (length h), h @ [obj]))"

text \<open>Two objects agree on every attribute and registered type outside a set of names.\<close>

definition same_outside :: "string set \<Rightarrow> hparams_obj \<Rightarrow> hparams_obj \<Rightarrow> bool" where
  "same_outside ov obj' obj \<longleftrightarrow>
     (\<forall>n. n \<notin> ov \<longrightarrow> attrs obj' n = attrs obj n \<and> hparam_types obj' n = hparam_types obj n)"

text \<open>
  \<open>derived_preset P B overridden\<close>: from every store \<open>h\<close>, both \<open>P\<close> and \<open>B\<close> return a
  reference to a new object; \<open>P\<close> leaves the objects of \<open>h\<close> unchanged; and the object
  that \<open>P\<close> returns agrees with the one that \<open>B\<close> returns outside \<open>overridden\<close>.
\<close>

definition derived_preset :: "ref prog \<Rightarrow> ref prog \<Rightarrow> string set \<Rightarrow> bool" where
  "derived_preset P B overridden \<longleftrightarrow>
     (\<forall>h. \<exists>r h' hB. P h = (Inr r, h') \<and> B h = (Inr r, hB)
          \<and> r = length h \<and> length h' = Suc (length h) \<and> take (length h) h' = h
          \<and> same_outside overridden (h' ! r) (hB ! r))"

text \<open>
  The PPO presets add hyperparameters to the object of \<^verbatim>\<open>basic_params1\<close>, which
  \<^verbatim>\<open>add_hparam\<close> refuses for a name that the object already has with a value other
  than \<^verbatim>\<open>None\<close>. \<open>fresh_base bp\<close> says that none of the added names is taken.
\<close>

definition fresh_base :: "hparams_obj \<Rightarrow> bool" where
  "fresh_base bp \<longleftrightarrow>
     (\<forall>n \<in> set [''lr_decay_in_final_epoch'', ''init_mean_factor'', ''init_logstd'',
        ''policy_layers'', ''value_layers'', ''clipping_coef'', ''gae_gamma'', ''gae_lambda'',
        ''entropy_loss_coef'', ''value_loss_coef'', ''optimization_epochs'', ''epoch_length'',
        ''epochs_num'', ''eval_every_epochs'', ''save_models_every_epochs'',
        ''optimization_batch_size'', ''intrinsic_reward_scale'', ''logits_clip'', ''dropout_ppo'',
        ''effective_num_agents'', ''policy_network''].
        getattr_default bp n PNone = PNone)"

text \<open>A small object of the kind \<^verbatim>\<open>basic_params1\<close> returns, for concrete runs.\<close>

definition sample_basic_params :: hparams_obj where
  "sample_basic_params =
     \<lparr>attrs = [''batch_size'' \<mapsto> PInt 4096, ''learning_rate_schedule'' \<mapsto> PStr ''legacy'',
               ''learning_rate_constant'' \<mapsto> PFloat 1, ''clip_grad_norm'' \<mapsto> PFloat 2],
      hparam_types = [''batch_size'' \<mapsto> (TInt, False),
               ''learning_rate_schedule'' \<mapsto> (TStr, False),
               ''learning_rate_constant'' \<mapsto> (TFloat, False),
               ''clip_grad_norm'' \<mapsto> (TFloat, False)]\<rparr>"

fun is_Assign :: "stmt \<Rightarrow> bool" where
  "is_Assign (Assign _ _) = True"
| "is_Assign _ = False"

text \<open>A statement that cannot raise on \<open>obj\<close>: an assignment, or adding a free name.\<close>

fun addable :: "hparams_obj \<Rightarrow> stmt \<Rightarrow> bool" where
  "addable obj (Assign _ _) = True"
| "addable obj (Add_hparam n v) \<longleftrightarrow> seq_items v \<noteq> Some [] \<and> getattr_default obj n PNone = PNone"
| "addable obj (Set_hparam _ _) = False"

section \<open>Shapes as the Python code handles them\<close>

text \<open>
  The code computes shapes from Python lists whose elements are integers, \<^verbatim>\<open>None\<close> (an
  unknown dimension in \<^verbatim>\<open>TensorShape.as_list()\<close>) or scalar tensors (a dimension read
  when the graph runs; \<open>None\<close> inside when that read fails), and from whole shape
  tensors (\<^verbatim>\<open>tf.shape(x)\<close>, with its run-time content).
\<close>

datatype shape_elem = Py_int int | NoneDim | Tensor_scalar "int option"

datatype shape_arg = Py_list "shape_elem list" | Shape_tensor "int list"

text \<open>\<^verbatim>\<open>x.shape.as_list()\<close> raises on an unknown rank.\<close>

definition as_list :: "tensor \<Rightarrow> error + shape_elem list" where
  "as_list x =
     (case static_shape x of
        None \<Rightarrow> Inl (ValueError ''as_list() is not defined on an unknown TensorShape.'')
      | Some ds \<Rightarrow> Inr (map (\<lambda>d. case d of None \<Rightarrow> NoneDim | Some n \<Rightarrow> Py_int (int n)) ds))"

definition run_dim :: "tensor \<Rightarrow> nat \<Rightarrow> int option" where
  "run_dim x i = (if i < length (shape x) then Some (int (shape x ! i)) else None)"

text \<open>
  Modelled from the spec: \<^verbatim>\<open>common_layers.shape_list\<close> is defined in another module of
  the repository; the spec says that the action count "is derived from the shape of a
  provided target-action placeholder". It returns the list of dimensions, each one
  static where the graph knows it and a scalar tensor otherwise, and the shape tensor
  itself when the rank is unknown.
\<close>

definition shape_list :: "tensor \<Rightarrow> shape_arg" where
  "shape_list x =
     (case static_shape x of
        None \<Rightarrow> Shape_tensor (map int (shape x))
      | Some ds \<Rightarrow>
          Py_list (map (\<lambda>(i, d). case d of Some n \<Rightarrow> Py_int (int n)
                                      | None \<Rightarrow> Tensor_scalar (run_dim x i))
                     (enumerate 0 ds)))"

text \<open>
  \<^verbatim>\<open>s[:k]\<close>, \<^verbatim>\<open>s[k:]\<close>, \<^verbatim>\<open>s[k]\<close>, \<^verbatim>\<open>s + [n]\<close> and \<^verbatim>\<open>[n] + s\<close>. On a Python list they
  slice, index and concatenate; on a tensor they are a strided slice and an addition that
  broadcasts the one-element list over the entries.
\<close>

fun slice_to :: "nat \<Rightarrow> shape_arg \<Rightarrow> shape_arg" where
  "slice_to k (Py_list es) = Py_list (take k es)"
| "slice_to k (Shape_tensor rs) = Shape_tensor (take k rs)"

fun slice_from :: "nat \<Rightarrow> shape_arg \<Rightarrow> shape_arg" where
  "slice_from k (Py_list es) = Py_list (drop k es)"
| "slice_from k (Shape_tensor rs) = Shape_tensor (drop k rs)"

fun index_at :: "shape_arg \<Rightarrow> nat \<Rightarrow> error + shape_elem" where
  "index_at (Py_list es) k =
     (if k < length es then Inr (es ! k) else Inl (IndexError ''list index out of range''))"
| "index_at (Shape_tensor rs) k =
     Inr (Tensor_scalar (if k < length rs then Some (rs ! k) else None))"

fun plus_list :: "shape_arg \<Rightarrow> int \<Rightarrow> shape_arg" where
  "plus_list (Py_list es) n = Py_list (es @ [Py_int n])"
| "plus_list (Shape_tensor rs) n = Shape_tensor (map (\<lambda>d. d + n) rs)"

fun list_plus :: "int \<Rightarrow> shape_arg \<Rightarrow> shape_arg" where
  "list_plus n (Py_list es) = Py_list (Py_int n # es)"
| "list_plus n (Shape_tensor rs) = Shape_tensor (map (\<lambda>d. n + d) rs)"

text \<open>\<^verbatim>\<open>functools.reduce(operator.mul, dims, 1)\<close>: a \<^verbatim>\<open>None\<close> among the dimensions raises.\<close>

fun reduce_mul :: "shape_elem list \<Rightarrow> int \<Rightarrow> error + int" where
  "reduce_mul [] acc = Inr acc"
| "reduce_mul (Py_int i # es) acc = reduce_mul es (acc * i)"
| "reduce_mul (_ # es) acc = Inl (TypeError ''unsupported operand type(s) for *'')"

text \<open>
  \<^verbatim>\<open>float(v)\<close> rounds an integer to a double and raises when the integer is beyond the
  doubles; \<^verbatim>\<open>a / b\<close> on two finite doubles raises on a zero divisor and otherwise rounds
  the quotient to a double.
\<close>

fun py_float :: "shape_elem \<Rightarrow> error + real" where
  "py_float (Py_int i) =
     (case to_float binary64 (of_int i) of
        Fin r \<Rightarrow> Inr r
      | _ \<Rightarrow> Inl (OverflowError ''int too large to convert to float''))"
| "py_float _ = Inl (TypeError ''float() argument must be a string or a number'')"

definition truediv :: "real \<Rightarrow> real \<Rightarrow> error + fl" where
  "truediv a b =
     (if b = 0 then Inl (ZeroDivisionError ''float division by zero'')
      else Inr (to_float binary64 (a / b)))"

section \<open>Tensor constructors\<close>

text \<open>
  \<^verbatim>\<open>tf.constant(value, shape=dims)\<close> needs a list of integers, and makes of a Python
  float a tensor of 32-bit floats: the double is rounded once more. \<^verbatim>\<open>tf.zeros(dims)\<close>
  also takes scalar tensors and shape tensors, whose dimensions are then unknown to the
  graph.
\<close>

definition filled :: "fl \<Rightarrow> nat list \<Rightarrow> tensor" where
  "filled v ns = \<lparr>static_shape = Some (map Some ns), shape = ns,
                  entries = replicate (prod_list ns) v\<rparr>"

fun static_int :: "shape_elem \<Rightarrow> error + int" where
  "static_int (Py_int i) = Inr i"
| "static_int _ = Inl (TypeError ''int() argument must be a string or a number'')"

fun run_int :: "shape_elem \<Rightarrow> error + int" where
  "run_int (Py_int i) = Inr i"
| "run_int NoneDim = Inl (TypeError ''Failed to convert object to Tensor'')"
| "run_int (Tensor_scalar None) = Inl (InvalidArgumentError ''slice index out of bounds'')"
| "run_int (Tensor_scalar (Some v)) = Inr v"

fun map_result :: "('a \<Rightarrow> error + 'b) \<Rightarrow> 'a list \<Rightarrow> error + 'b list" where
  "map_result f [] = Inr []"
| "map_result f (x # xs) =
     (case f x of
        Inl e \<Rightarrow> Inl e
      | Inr y \<Rightarrow> (case map_result f xs of Inl e \<Rightarrow> Inl e | Inr ys \<Rightarrow> Inr (y # ys)))"

definition tf_constant :: "fl \<Rightarrow> shape_elem list \<Rightarrow> error + tensor" where
  "tf_constant v dims =
     (case map_result static_int dims of
        Inl e \<Rightarrow> Inl e
      | Inr ns \<Rightarrow>
          if \<exists>n \<in> set ns. n < 0 then Inl (ValueError ''negative dimension'')
          else Inr (filled (convert binary32 v) (map nat ns)))"

fun graph_dim :: "shape_elem \<Rightarrow> nat option" where
  "graph_dim (Py_int i) = Some (nat i)"
| "graph_dim _ = None"

fun tf_zeros :: "shape_arg \<Rightarrow> error + tensor" where
  "tf_zeros (Py_list es) =
     (case map_result run_int es of
        Inl e \<Rightarrow> Inl e
      | Inr ns \<Rightarrow>
          if \<exists>n \<in> set ns. n < 0 then Inl (ValueError ''negative dimension'')
          else Inr \<lparr>static_shape = Some (map graph_dim es), shape = map nat ns,
                    entries = replicate (prod_list (map nat ns)) (Fin 0)\<rparr>)"
| "tf_zeros (Shape_tensor rs) =
     (if \<exists>n \<in> set rs. n < 0 then Inl (InvalidArgumentError ''negative dimension'')
      else Inr \<lparr>static_shape = None, shape = map nat rs,
                entries = replicate (prod_list (map nat rs)) (Fin 0)\<rparr>)"

section \<open>Policy bodies\<close>

text \<open>
  A feature mapping and the output mapping of a body are dictionaries from names to
  tensors.
  \<^verbatim>\<open>
  class DiscretePolicyBase(t2t_model.T2TModel):
    @staticmethod
    def _get_num_actions(features):
      return common_layers.shape_list(features["target_action"])[2]
  \<close>
\<close>

type_synonym features = "string \<rightharpoonup> tensor"

definition get_num_actions :: "features \<Rightarrow> error + shape_elem" where
  "get_num_actions features =
     (case features ''target_action'' of
        None \<Rightarrow> Inl (KeyError ''target_action'')
      | Some t \<Rightarrow> index_at (shape_list t) 2)"

text \<open>
  \<^verbatim>\<open>
  def body(self, features):
    observations = features["inputs"]
    obs_shape = observations.shape.as_list()
    # Just so Saver doesn't complain because of no variables.
    tf.get_variable("dummy_var", initializer=0.0)
    num_actions = self._get_num_actions(features)
    logits = tf.constant(
        1. / float(num_actions),
        shape=(obs_shape[:2] + [num_actions])
    )
    value = tf.zeros(obs_shape[:2])
    return {"target_action": logits, "target_value": value}
  \<close>
  The variable \<^verbatim>\<open>dummy_var\<close> lives in the graph's variable store, which the framework
  owns; the call's result is dropped and no tensor of the body reads it. The variable
  store is not part of the model.
\<close>

definition RandomPolicy_body :: "features \<Rightarrow> error + features" where
  "RandomPolicy_body features =
     (case features ''inputs'' of
        None \<Rightarrow> Inl (KeyError ''inputs'')
      | Some observations \<Rightarrow>
     (case as_list observations of
        Inl e \<Rightarrow> Inl e
      | Inr obs_shape \<Rightarrow>
     (case get_num_actions features of
        Inl e \<Rightarrow> Inl e
      | Inr num_actions \<Rightarrow>
     (case py_float num_actions of
        Inl e \<Rightarrow> Inl e
      | Inr float_num_actions \<Rightarrow>
     (case truediv 1 float_num_actions of
        Inl e \<Rightarrow> Inl e
      | Inr p \<Rightarrow>
     (case tf_constant p (take 2 obs_shape @ [num_actions]) of
        Inl e \<Rightarrow> Inl e
      | Inr logits \<Rightarrow>
     (case tf_zeros (Py_list (take 2 obs_shape)) of
        Inl e \<Rightarrow> Inl e
      | Inr value \<Rightarrow>
          Inr [''target_action'' \<mapsto> logits, ''target_value'' \<mapsto> value])))))))"

section \<open>Action spaces and the framework's operations\<close>

text \<open>The classes of \<^verbatim>\<open>gym.spaces\<close>; \<^verbatim>\<open>isinstance\<close> tests the class of the value.\<close>

datatype space =
    Discrete nat
  | Box "nat list"
  | MultiDiscrete "nat list"
  | MultiBinary nat
  | Tuple_space "space list"

fun isinstance_Discrete :: "space \<Rightarrow> bool" where
  "isinstance_Discrete (Discrete _) = True"
| "isinstance_Discrete _ = False"

fun isinstance_Box :: "space \<Rightarrow> bool" where
  "isinstance_Box (Box _) = True"
| "isinstance_Box _ = False"

text \<open>The attribute \<^verbatim>\<open>action_space.n\<close>, which \<^verbatim>\<open>Discrete\<close> and \<^verbatim>\<open>MultiBinary\<close> have.\<close>

fun action_space_n :: "space \<Rightarrow> error + nat" where
  "action_space_n (Discrete n) = Inr n"
| "action_space_n (MultiBinary n) = Inr n"
| "action_space_n _ = Inl (AttributeError ''n'')"

text \<open>
  Operations of the framework and of other modules that build layers are parameters of
  the bodies: reshaping, \<^verbatim>\<open>discretization.int_to_bit_embed\<close>,
  \<^verbatim>\<open>tf.contrib.layers.fully_connected\<close> (applied with the variables \<open>'w\<close> of the layer it
  creates) and the index \<^verbatim>\<open>[..., 0]\<close>.
\<close>

datatype activation = Relu | Tanh

record 'w framework =
  tf_reshape :: "tensor \<Rightarrow> shape_arg \<Rightarrow> tensor"
  int_to_bit_embed :: "tensor \<Rightarrow> nat \<Rightarrow> nat \<Rightarrow> tensor"
  fully_connected :: "'w \<Rightarrow> tensor \<Rightarrow> shape_elem \<Rightarrow> activation option \<Rightarrow> tensor"
  ellipsis_zero :: "tensor \<Rightarrow> tensor"

text \<open>A framework whose operations return their input, for concrete runs.\<close>

definition plain_framework :: "unit framework" where
  "plain_framework =
     \<lparr>tf_reshape = (\<lambda>x s. x), int_to_bit_embed = (\<lambda>x nbits size. x),
      fully_connected = (\<lambda>w x n act. x), ellipsis_zero = (\<lambda>x. x)\<rparr>"

text \<open>
  \<^verbatim>\<open>tf.shape(x)[i]\<close>: a scalar tensor; when the rank of \<open>x\<close> is known and \<open>i\<close> is out of
  range, building the slice raises.
\<close>

definition tf_shape_at :: "tensor \<Rightarrow> nat \<Rightarrow> error + shape_elem" where
  "tf_shape_at x i =
     (case static_shape x of
        None \<Rightarrow> Inr (Tensor_scalar (run_dim x i))
      | Some ds \<Rightarrow>
          if i < length ds then Inr (Tensor_scalar (run_dim x i))
          else Inl (ValueError ''slice index out of bounds''))"

section \<open>\<^verbatim>\<open>get_policy\<close> and \<^verbatim>\<open>feed_forward_gaussian_fun\<close>\<close>

text \<open>
  \<^verbatim>\<open>
  def get_policy(observations, hparams, action_space):
    if not isinstance(action_space, gym.spaces.Discrete):
      raise ValueError("Expecting discrete action space.")

    model = registry.model(hparams.policy_network)(
        hparams, tf.estimator.ModeKeys.TRAIN
    )
    obs_shape = common_layers.shape_list(observations)
    features = {
        "inputs": observations,
        "target_action": tf.zeros(obs_shape[:2] + [action_space.n]),
        "target_value": tf.zeros(obs_shape[:2])
    }
    with tf.variable_scope(tf.get_variable_scope(), reuse=tf.AUTO_REUSE):
      (targets, _) = model(features)
    return (targets["target_action"], targets["target_value"])
  \<close>
  The registry and the class \<^verbatim>\<open>T2TModel\<close> are in other modules: \<open>registry_model\<close> is
  the lookup of a model class by name, a parameter, and the class it returns is given by
  what calling its instance on a feature mapping returns.
\<close>

definition get_policy ::
  "(pyval \<Rightarrow> error + (hparams_obj \<Rightarrow> features \<Rightarrow> error + features))
    \<Rightarrow> tensor \<Rightarrow> hparams_obj \<Rightarrow> space \<Rightarrow> error + tensor \<times> tensor" where
  "get_policy registry_model observations hparams action_space =
     (if \<not> isinstance_Discrete action_space
      then Inl (ValueError ''Expecting discrete action space.'')
      else
     (case getattr_py hparams ''policy_network'' of
        Inl e \<Rightarrow> Inl e
      | Inr policy_network \<Rightarrow>
     (case registry_model policy_network of
        Inl e \<Rightarrow> Inl e
      | Inr model_class \<Rightarrow>
     (let model = model_class hparams;
          obs_shape = shape_list observations in
     (case action_space_n action_space of
        Inl e \<Rightarrow> Inl e
      | Inr n \<Rightarrow>
     (case tf_zeros (plus_list (slice_to 2 obs_shape) (int n)) of
        Inl e \<Rightarrow> Inl e
      | Inr target_action \<Rightarrow>
     (case tf_zeros (slice_to 2 obs_shape) of
        Inl e \<Rightarrow> Inl e
      | Inr target_value \<Rightarrow>
     (let features = [''inputs'' \<mapsto> observations, ''target_action'' \<mapsto> target_action,
                      ''target_value'' \<mapsto> target_value] in
     (case model features of
        Inl e \<Rightarrow> Inl e
      | Inr targets \<Rightarrow>
     (case targets ''target_action'' of
        None \<Rightarrow> Inl (KeyError ''target_action'')
      | Some logits \<Rightarrow>
     (case targets ''target_value'' of
        None \<Rightarrow> Inl (KeyError ''target_value'')
      | Some v \<Rightarrow> Inr (logits, v))))))))))))"

text \<open>
  \<^verbatim>\<open>
  def feed_forward_gaussian_fun(action_space, config, observations):
    if not isinstance(action_space, gym.spaces.box.Box):
      raise ValueError("Expecting continuous action space.")

    mean_weights_initializer = tf.contrib.layers.variance_scaling_initializer(
        factor=config.init_mean_factor)
    logstd_initializer = tf.random_normal_initializer(config.init_logstd, 1e-10)

    flat_observations = tf.reshape(observations, [
        tf.shape(observations)[0], tf.shape(observations)[1],
        functools.reduce(operator.mul, observations.shape.as_list()[2:], 1)])
    ...
  \<close>
  The rest of the function builds the policy and value networks from
  \<^verbatim>\<open>flat_observations\<close>; it is the parameter \<open>network\<close>.
\<close>

definition feed_forward_gaussian_fun ::
  "'w framework \<Rightarrow> (space \<Rightarrow> hparams_obj \<Rightarrow> tensor \<Rightarrow> error + 'out)
    \<Rightarrow> space \<Rightarrow> hparams_obj \<Rightarrow> tensor \<Rightarrow> error + 'out" where
  "feed_forward_gaussian_fun fw network action_space config observations =
     (if \<not> isinstance_Box action_space
      then Inl (ValueError ''Expecting continuous action space.'')
      else
     (case getattr_py config ''init_mean_factor'' of
        Inl e \<Rightarrow> Inl e
      | Inr init_mean_factor \<Rightarrow>
     (case getattr_py config ''init_logstd'' of
        Inl e \<Rightarrow> Inl e
      | Inr init_logstd \<Rightarrow>
     (case tf_shape_at observations 0 of
        Inl e \<Rightarrow> Inl e
      | Inr d0 \<Rightarrow>
     (case tf_shape_at observations 1 of
        Inl e \<Rightarrow> Inl e
      | Inr d1 \<Rightarrow>
     (case as_list observations of
        Inl e \<Rightarrow> Inl e
      | Inr dims \<Rightarrow>
     (case reduce_mul (drop 2 dims) 1 of
        Inl e \<Rightarrow> Inl e
      | Inr k \<Rightarrow>
     (let flat_observations = tf_reshape fw observations (Py_list [d0, d1, Py_int k])
      in network action_space config flat_observations))))))))"

section \<open>The dense bitwise policy\<close>

text \<open>
  \<^verbatim>\<open>
  def body(self, features):
    observations = features["inputs"]
    obs_shape = common_layers.shape_list(observations)
    x = tf.reshape(observations, [-1] + obs_shape[2:])
    with tf.variable_scope("dense_bitwise"):
      x = discretization.int_to_bit_embed(x, 8, 32)
      flat_x = tf.reshape(
          x, [obs_shape[0], obs_shape[1],
              functools.reduce(operator.mul, x.shape.as_list()[1:], 1)])

      x = tf.contrib.layers.fully_connected(flat_x, 256, tf.nn.relu)
      x = tf.contrib.layers.fully_connected(flat_x, 128, tf.nn.relu)

      logits = tf.contrib.layers.fully_connected(
          x, self._get_num_actions(features), activation_fn=None
      )

      value = tf.contrib.layers.fully_connected(
          x, 1, activation_fn=None)[..., 0]

    return {"target_action": logits, "target_value": value}
  \<close>
  Each call of \<^verbatim>\<open>fully_connected\<close> creates a layer with variables of its own, in the
  scopes \<^verbatim>\<open>fully_connected\<close>, \<^verbatim>\<open>fully_connected_1\<close>, ... in the order of the calls;
  \<open>vars\<close> gives the variables of each scope.
\<close>

definition DenseBitwiseCategoricalPolicy_body ::
  "'w framework \<Rightarrow> (string \<Rightarrow> 'w) \<Rightarrow> features \<Rightarrow> error + features" where
  "DenseBitwiseCategoricalPolicy_body fw vars features =
     (case features ''inputs'' of
        None \<Rightarrow> Inl (KeyError ''inputs'')
      | Some observations \<Rightarrow>
     (let obs_shape = shape_list observations;
          x = tf_reshape fw observations (list_plus (- 1) (slice_from 2 obs_shape));
          x = int_to_bit_embed fw x 8 32 in
     (case index_at obs_shape 0 of
        Inl e \<Rightarrow> Inl e
      | Inr d0 \<Rightarrow>
     (case index_at obs_shape 1 of
        Inl e \<Rightarrow> Inl e
      | Inr d1 \<Rightarrow>
     (case as_list x of
        Inl e \<Rightarrow> Inl e
      | Inr x_shape \<Rightarrow>
     (case reduce_mul (drop 1 x_shape) 1 of
        Inl e \<Rightarrow> Inl e
      | Inr k \<Rightarrow>
     (let flat_x = tf_reshape fw x (Py_list [d0, d1, Py_int k]);
          x = fully_connected fw (vars ''dense_bitwise/fully_connected'') flat_x
                (Py_int 256) (Some Relu);
          x = fully_connected fw (vars ''dense_bitwise/fully_connected_1'') flat_x
                (Py_int 128) (Some Relu) in
     (case get_num_actions features of
        Inl e \<Rightarrow> Inl e
      | Inr num_actions \<Rightarrow>
     (let logits = fully_connected fw (vars ''dense_bitwise/fully_connected_2'') x
                     num_actions None;
          v = ellipsis_zero fw
                (fully_connected fw (vars ''dense_bitwise/fully_connected_3'') x
                   (Py_int 1) None)
      in Inr [''target_action'' \<mapsto> logits, ''target_value'' \<mapsto> v])))))))))"

text \<open>
  The body as the claim describes it: the same function with the 256-unit layer left
  out, so that one hidden layer of 128 units on \<open>flat_x\<close> feeds both outputs.
\<close>

definition dense_bitwise_128_only ::
  "'w framework \<Rightarrow> (string \<Rightarrow> 'w) \<Rightarrow> features \<Rightarrow> error + features" where
  "dense_bitwise_128_only fw vars features =
     (case features ''inputs'' of
        None \<Rightarrow> Inl (KeyError ''inputs'')
      | Some observations \<Rightarrow>
     (let obs_shape = shape_list observations;
          x = tf_reshape fw observations (list_plus (- 1) (slice_from 2 obs_shape));
          x = int_to_bit_embed fw x 8 32 in
     (case index_at obs_shape 0 of
        Inl e \<Rightarrow> Inl e
      | Inr d0 \<Rightarrow>
     (case index_at obs_shape 1 of
        Inl e \<Rightarrow> Inl e
      | Inr d1 \<Rightarrow>
     (case as_list x of
        Inl e \<Rightarrow> Inl e
      | Inr x_shape \<Rightarrow>
     (case reduce_mul (drop 1 x_shape) 1 of
        Inl e \<Rightarrow> Inl e
      | Inr k \<Rightarrow>
     (let flat_x = tf_reshape fw x (Py_list [d0, d1, Py_int k]);
          hidden = fully_connected fw (vars ''dense_bitwise/fully_connected_1'') flat_x
                     (Py_int 128) (Some Relu) in
     (case get_num_actions features of
        Inl e \<Rightarrow> Inl e
      | Inr num_actions \<Rightarrow>
          Inr [''target_action'' \<mapsto>
                 fully_connected fw (vars ''dense_bitwise/fully_connected_2'') hidden
                   num_actions None,
               ''target_value'' \<mapsto>
                 ellipsis_zero fw
                   (fully_connected fw (vars ''dense_bitwise/fully_connected_3'') hidden
                      (Py_int 1) None)]))))))))"

section \<open>Environment factories\<close>

text \<open>
  Environments are objects in a store of their own: real environments, and adapters that
  hold the reference to the environment they wrap.
\<close>

datatype 'e env_obj = Real_env 'e | PyFuncBatchEnv_obj ref

type_synonym 'e env_store = "'e env_obj list"

text \<open>
  Modelled from the spec: the class \<^verbatim>\<open>PyFuncBatchEnv\<close> is defined in another module of the
  repository; the spec says that the returned function "wraps \<^verbatim>\<open>env\<close> in an adapter
  suitable for in-graph stepping" and that "wrapping must be side-effect-free and
  repeatable". Its constructor is modelled as constructing a new adapter object that
  holds the reference to \<^verbatim>\<open>env\<close>.
\<close>

definition PyFuncBatchEnv :: "ref \<Rightarrow> 'e env_store \<Rightarrow> ref \<times> 'e env_store" where
  "PyFuncBatchEnv env s = (length s, s @ [PyFuncBatchEnv_obj env])"

text \<open>
  \<^verbatim>\<open>
  def make_real_env_fn(env):
    return lambda in_graph: PyFuncBatchEnv(env) if in_graph else env
  \<close>
\<close>

definition make_real_env_fn :: "ref \<Rightarrow> bool \<Rightarrow> 'e env_store \<Rightarrow> ref \<times> 'e env_store" where
  "make_real_env_fn env = (\<lambda>in_graph s. if in_graph then PyFuncBatchEnv env s else (env, s))"

text \<open>
  \<^verbatim>\<open>
  def make_simulated_env_fn(**env_kwargs):
    def env_fn(in_graph):
      class_ = SimulatedBatchEnv if in_graph else SimulatedBatchGymEnv
      return class_(**env_kwargs)
    return env_fn
  \<close>
  The two classes are values that the function chooses between; they are parameters.
\<close>

definition make_simulated_env_fn ::
  "('k \<Rightarrow> error + 'env) \<Rightarrow> ('k \<Rightarrow> error + 'env) \<Rightarrow> 'k \<Rightarrow> bool \<Rightarrow> error + 'env" where
  "make_simulated_env_fn SimulatedBatchEnv_class SimulatedBatchGymEnv_class env_kwargs =
     (\<lambda>in_graph.
        let chosen_class = (if in_graph then SimulatedBatchEnv_class else SimulatedBatchGymEnv_class)
        in chosen_class env_kwargs)"

text \<open>
  The objects of the two simulated environment classes, and the keyword parameters that
  a constructor declares.
\<close>

datatype 'v sim_env =
    SimulatedBatchEnv_obj "(string \<times> 'v) list"
  | SimulatedBatchGymEnv_obj "(string \<times> 'v) list"

record signature =
  required :: "string list"
  optional :: "string list"

text \<open>
  Modelled from the spec: the constructors of \<^verbatim>\<open>SimulatedBatchEnv\<close> and
  \<^verbatim>\<open>SimulatedBatchGymEnv\<close> are defined in other modules of the repository; the spec says
  that "both variants must accept an identical keyword-argument contract" and that a
  deviation is a "construction-time failure". \<open>bind_kwargs\<close> is Python's binding of a call
  that passes keyword arguments only to the declared parameters: a keyword that is not
  declared raises a TypeError, then required parameters that are not passed raise a
  TypeError that names them.
\<close>

definition bind_kwargs :: "signature \<Rightarrow> (string \<times> 'v) list \<Rightarrow> error option" where
  "bind_kwargs sg kwargs =
     (case filter (\<lambda>k. k \<notin> set (required sg) \<and> k \<notin> set (optional sg)) (map fst kwargs) of
        k # _ \<Rightarrow> Some (TypeError (''__init__() got an unexpected keyword argument '' @ k))
      | [] \<Rightarrow>
          (case filter (\<lambda>k. k \<notin> set (map fst kwargs)) (required sg) of
             [] \<Rightarrow> None
           | k # ks \<Rightarrow>
               Some (TypeError (''__init__() missing required arguments:''
                       @ concat (map (\<lambda>m. '' '' @ m) (k # ks))))))"

text \<open>
  Modelled from the spec: the constructor of \<^verbatim>\<open>SimulatedBatchEnv\<close>, with the keyword
  contract \<open>sg\<close> that both variants share: when the arguments bind, the object is
  constructed from them.
\<close>

definition SimulatedBatchEnv :: "signature \<Rightarrow> (string \<times> 'v) list \<Rightarrow> error + 'v sim_env" where
  "SimulatedBatchEnv sg kwargs =
     (case bind_kwargs sg kwargs of
        Some e \<Rightarrow> Inl e
      | None \<Rightarrow> Inr (SimulatedBatchEnv_obj kwargs))"

text \<open>
  Modelled from the spec: the constructor of \<^verbatim>\<open>SimulatedBatchGymEnv\<close>, with the same
  keyword contract \<open>sg\<close>.
\<close>

definition SimulatedBatchGymEnv :: "signature \<Rightarrow> (string \<times> 'v) list \<Rightarrow> error + 'v sim_env" where
  "SimulatedBatchGymEnv sg kwargs =
     (case bind_kwargs sg kwargs of
        Some e \<Rightarrow> Inl e
      | None \<Rightarrow> Inr (SimulatedBatchGymEnv_obj kwargs))"

text \<open>A network parameter that returns the flattened observations, for concrete runs.\<close>

definition plain_network :: "space \<Rightarrow> hparams_obj \<Rightarrow> tensor \<Rightarrow> error + tensor" where
  "plain_network action_space config flat_observations = Inr flat_observations"

text \<open>A registry in which only \<^verbatim>\<open>random_policy\<close> is registered, for concrete runs.\<close>

definition random_policy_registry ::
  "pyval \<Rightarrow> error + (hparams_obj \<Rightarrow> features \<Rightarrow> error + features)" where
  "random_policy_registry name =
     (if name = PStr ''random_policy'' then Inr (\<lambda>hparams. RandomPolicy_body)
      else Inl (LookupError ''Model never registered''))"




section \<open>Properties of rounding\<close>

lemma pow2_pos: "0 < pow2 k"
  by (simp add: pow2_def)

lemma pow2_powr: "pow2 k = 2 powr (of_int k)"
  by (simp add: pow2_def powr_real_of_int field_simps)

lemma floor_log2:
  assumes "0 < x"
  shows "pow2 \<lfloor>log 2 x\<rfloor> \<le> x" and "x < pow2 (\<lfloor>log 2 x\<rfloor> + 1)"
proof -
  have "\<lfloor>log 2 x\<rfloor> = \<lfloor>log 2 x\<rfloor>" ..
  then have "2 powr (of_int \<lfloor>log 2 x\<rfloor>) \<le> x \<and> x < 2 powr (of_int (\<lfloor>log 2 x\<rfloor> + 1))"
    using floor_log_eq_powr_iff [of x 2 "\<lfloor>log 2 x\<rfloor>"] assms by simp
  then show "pow2 \<lfloor>log 2 x\<rfloor> \<le> x" and "x < pow2 (\<lfloor>log 2 x\<rfloor> + 1)"
    by (simp_all add: pow2_powr)
qed

lemma floor_log2_eq:
  assumes "0 < x" and "pow2 k \<le> x" and "x < pow2 (k + 1)"
  shows "\<lfloor>log 2 x\<rfloor> = k"
  using floor_log_eq_powr_iff [of x 2 k] assms by (simp add: pow2_powr)

lemma rne_bounds: "of_int (rne q) \<le> q + 1 / 2" "q - 1 / 2 \<le> of_int (rne q)"
  unfolding rne_def Let_def by (auto; linarith)+

lemma rne_nonneg: "0 \<le> q \<Longrightarrow> 0 \<le> rne q"
  unfolding rne_def Let_def by (auto simp: ; linarith?)

lemma rne_nonpos: "q \<le> 0 \<Longrightarrow> rne q \<le> 0"
  unfolding rne_def Let_def by (auto; linarith?)

lemma rne_of_int [simp]: "rne (of_int n) = n"
  by (simp add: rne_def)


lemma pow2_mono: "a \<le> b \<Longrightarrow> pow2 a \<le> pow2 b"
  by (simp add: pow2_powr)

lemma round_real_nonneg: "0 \<le> x \<Longrightarrow> 0 \<le> round_real fmt x"
  unfolding round_real_def ulp_def
  using rne_nonneg [of "x / pow2 (exponent fmt x - (int (precision fmt) - 1))"]
    pow2_pos [of "exponent fmt x - (int (precision fmt) - 1)"]
  by simp

lemma round_real_nonpos: "x \<le> 0 \<Longrightarrow> round_real fmt x \<le> 0"
proof -
  assume x: "x \<le> 0"
  let ?u = "pow2 (exponent fmt x - (int (precision fmt) - 1))"
  have u: "0 < ?u" by (rule pow2_pos)
  then have "x / ?u \<le> 0" using x by (simp add: divide_nonpos_pos)
  then have "rne (x / ?u) \<le> 0" by (rule rne_nonpos)
  then have "of_int (rne (x / ?u)) * ?u \<le> 0"
    using u by (simp add: mult_nonpos_nonneg)
  then show ?thesis by (simp add: round_real_def ulp_def)
qed


lemma to_float_nonpos:
  assumes "x \<le> 0"
  shows "\<not> fl_less (Fin 0) (to_float fmt x)"
  using round_real_nonpos [OF assms, of fmt] pow2_pos [of "emax fmt + 1"]
  by (simp add: to_float_def Let_def)

lemma round_real_error:
  assumes "x \<noteq> 0"
  shows "\<bar>round_real fmt x - x\<bar> \<le> ulp fmt x / 2"
proof -
  let ?u = "ulp fmt x"
  have u: "0 < ?u" by (simp add: ulp_def pow2_pos)
  have "\<bar>of_int (rne (x / ?u)) - x / ?u\<bar> \<le> 1 / 2"
    using rne_bounds [of "x / ?u"] by linarith
  then have "\<bar>of_int (rne (x / ?u)) - x / ?u\<bar> * ?u \<le> 1 / 2 * ?u"
    using u by (simp add: mult_right_mono)
  moreover have "\<bar>of_int (rne (x / ?u)) - x / ?u\<bar> * ?u = \<bar>of_int (rne (x / ?u)) * ?u - x\<bar>"
  proof -
    have "(of_int (rne (x / ?u)) - x / ?u) * ?u = of_int (rne (x / ?u)) * ?u - x"
      using u by (simp add: field_simps)
    moreover have "\<bar>of_int (rne (x / ?u)) - x / ?u\<bar> * ?u
        = \<bar>(of_int (rne (x / ?u)) - x / ?u) * ?u\<bar>"
      using u by (simp add: abs_mult)
    ultimately show ?thesis by simp
  qed
  ultimately show ?thesis using assms by (simp add: round_real_def)
qed

lemma round_real_normal:
  assumes "0 < x" and "1 - emax fmt \<le> \<lfloor>log 2 x\<rfloor>" and "1 \<le> precision fmt"
  shows "x / 2 \<le> round_real fmt x" and "round_real fmt x \<le> 3 * x / 2"
proof -
  have e: "exponent fmt x = \<lfloor>log 2 x\<rfloor>"
    using assms(1,2) by (simp add: exponent_def)
  have "ulp fmt x \<le> pow2 \<lfloor>log 2 x\<rfloor>"
    unfolding ulp_def e using assms(3) by (intro pow2_mono) simp
  also have "\<dots> \<le> x" using floor_log2(1) [OF assms(1)] .
  finally have u: "ulp fmt x \<le> x" .
  have "\<bar>round_real fmt x - x\<bar> \<le> ulp fmt x / 2"
    using round_real_error [of x fmt] assms(1) by simp
  with u show "x / 2 \<le> round_real fmt x" and "round_real fmt x \<le> 3 * x / 2"
    by linarith+
qed

lemma round_real_eval:
  assumes "0 < x" and "pow2 k \<le> x" and "x < pow2 (k + 1)" and "1 - emax fmt \<le> k"
  shows "round_real fmt x
    = of_int (rne (x / pow2 (k - (int (precision fmt) - 1)))) * pow2 (k - (int (precision fmt) - 1))"
proof -
  have "\<lfloor>log 2 x\<rfloor> = k" using floor_log2_eq [OF assms(1,2,3)] .
  then have "exponent fmt x = k" using assms(1,4) by (simp add: exponent_def)
  then show ?thesis using assms(1) by (simp add: round_real_def ulp_def)
qed

section \<open>Properties of \<open>clip_logits\<close>\<close>









text \<open>
  Claim C2. When \<^verbatim>\<open>logits_clip\<close> is a number less than or equal to \<open>0\<close>, or the
  configuration has no such attribute (the default \<open>0.\<close> is taken), \<open>clip_logits\<close>
  returns the input logits unchanged.
\<close>

theorem clip_logits_identity:
  assumes "attrs config ''logits_clip'' = None
           \<or> (\<exists>v c. attrs config ''logits_clip'' = Some v \<and> num_val v = Some c \<and> c \<le> 0)"
  shows "clip_logits logits config = Inr logits"
proof -
  have zero: "py_gt_zero (PFloat 0) = Inr False"
    using to_float_nonpos [of 0 binary64] by simp
  from assms show ?thesis
  proof
    assume "attrs config ''logits_clip'' = None"
    then show ?thesis using zero by (simp add: clip_logits_def getattr_default_def)
  next
    assume "\<exists>v c. attrs config ''logits_clip'' = Some v \<and> num_val v = Some c \<and> c \<le> 0"
    then obtain v c where v: "attrs config ''logits_clip'' = Some v"
      and c: "num_val v = Some c" "c \<le> 0" by blast
    have "py_gt_zero v = Inr False"
      using c to_float_nonpos [of c binary64] by (cases v) (auto split: if_splits)
    then show ?thesis using v by (simp add: clip_logits_def getattr_default_def)
  qed
qed


text \<open>Rounding concrete numbers.\<close>

lemma to_float_zero [simp]: "to_float fmt 0 = Fin 0"
  using pow2_pos [of "emax fmt + 1"] by (simp add: to_float_def round_real_def)

lemma to_float_eval:
  assumes "0 < x" and "pow2 k \<le> x" and "x < pow2 (k + 1)" and "1 - emax fmt \<le> k"
    and "of_int (rne (x / pow2 (k - (int (precision fmt) - 1))))
           * pow2 (k - (int (precision fmt) - 1)) = r"
    and "r < pow2 (emax fmt + 1)"
  shows "to_float fmt x = Fin r"
proof -
  have r: "round_real fmt x = r" using round_real_eval [OF assms(1-4)] assms(5) by simp
  have "0 \<le> r" using round_real_nonneg [of x fmt] assms(1) r by simp
  moreover have "0 < pow2 (emax fmt + 1)" by (rule pow2_pos)
  ultimately show ?thesis using r assms(6) by (simp add: to_float_def)
qed






lemma double_three: "to_float binary64 3 = Fin 3"
  by (rule to_float_eval [where k = 1]) (simp_all add: pow2_def binary64_def rne_def Let_def)



theorem clip_logits_identity_witness:
  "clip_logits \<lparr>static_shape = Some [Some 1, Some 2], shape = [1, 2], entries = [Fin 7, Fin (- 4)]\<rparr>
      \<lparr>attrs = Map.empty, hparam_types = Map.empty\<rparr>
     = Inr \<lparr>static_shape = Some [Some 1, Some 2], shape = [1, 2], entries = [Fin 7, Fin (- 4)]\<rparr>
   \<and> clip_logits \<lparr>static_shape = Some [Some 1, Some 2], shape = [1, 2], entries = [Fin 7, Fin (- 4)]\<rparr>
      \<lparr>attrs = [''logits_clip'' \<mapsto> PFloat (-1)], hparam_types = Map.empty\<rparr>
     = Inr \<lparr>static_shape = Some [Some 1, Some 2], shape = [1, 2], entries = [Fin 7, Fin (- 4)]\<rparr>"
  using clip_logits_identity [of "\<lparr>attrs = Map.empty, hparam_types = Map.empty\<rparr>"
          "\<lparr>static_shape = Some [Some 1, Some 2], shape = [1, 2], entries = [Fin 7, Fin (- 4)]\<rparr>"]
        clip_logits_identity [of "\<lparr>attrs = [''logits_clip'' \<mapsto> PFloat (-1)], hparam_types = Map.empty\<rparr>"
          "\<lparr>static_shape = Some [Some 1, Some 2], shape = [1, 2], entries = [Fin 7, Fin (- 4)]\<rparr>"]
  by simp

lemma single_overflow:
  "to_float binary32 340282366920938463463374607431768211456 = PInf"
proof -
  have "round_real binary32 340282366920938463463374607431768211456
      = 340282366920938463463374607431768211456"
    by (subst round_real_eval [where k = 128])
       (simp_all add: pow2_def binary32_def rne_def Let_def)
  then show ?thesis by (simp add: to_float_def pow2_def binary32_def)
qed

lemma double_big:
  "to_float binary64 340282366920938463463374607431768211456
     = Fin 340282366920938463463374607431768211456"
  by (rule to_float_eval [where k = 128]) (simp_all add: pow2_def binary64_def rne_def Let_def)

text \<open>
  Finite logits can also overflow: with the entries \<open>2^127\<close> and \<open>- 2^127\<close> and the
  threshold \<open>2^128\<close>, the difference and the threshold are both infinite as 32-bit floats.
\<close>

lemma clip_logits_overflow:
  "clip_logits \<lparr>static_shape = Some [Some 2], shape = [2],
                entries = [Fin 170141183460469231731687303715884105728,
                           Fin (- 170141183460469231731687303715884105728)]\<rparr>
      \<lparr>attrs = [''logits_clip'' \<mapsto> PFloat 340282366920938463463374607431768211456],
       hparam_types = Map.empty\<rparr>
     = Inr \<lparr>static_shape = Some [Some 2], shape = [2], entries = [PInf, Fin 0]\<rparr>"
  by (simp add: clip_logits_def getattr_default_def double_big single_overflow
      reduce_min_def fl_minimum_def minimum_scalar_def sub_scalar_def)

section \<open>Properties of the presets\<close>

text \<open>
  Running statements on an object of the store is running them on the object alone and
  writing the outcome back, so a preset that starts from a builder is a builder, and the
  statements leave every name they do not mention as it was.
\<close>

lemma exec_stmts_exec_objs:
  "r < length h \<Longrightarrow>
   exec_stmts r sts h = (fst (exec_objs sts (h ! r)), h[r := snd (exec_objs sts (h ! r))])"
proof (induction sts arbitrary: h)
  case Nil
  then show ?case by simp
next
  case (Cons st sts)
  show ?case
  proof (cases "exec_obj st (h ! r)")
    case (Inl e)
    then show ?thesis by (simp add: exec_stmt_def)
  next
    case (Inr obj)
    have "r < length (h[r := obj])" using Cons.prems by simp
    from Cons.IH [OF this] show ?thesis using Inr Cons.prems by (simp add: exec_stmt_def)
  qed
qed

lemma builds_new_object: "builds (new_object obj) obj"
  by (simp add: builds_def new_object_def)

lemma builds_derive:
  assumes "builds B obj" and "exec_objs sts obj = (None, obj')"
  shows "builds (derive B sts) obj'"
  unfolding builds_def
proof
  fix h
  have B: "B h = (Inr (length h), h @ [obj])" using assms(1) by (simp add: builds_def)
  have "exec_stmts (length h) sts (h @ [obj]) = (None, h @ [obj'])"
    using exec_stmts_exec_objs [of "length h" "h @ [obj]" sts] assms(2) by simp
  then show "derive B sts h = (Inr (length h), h @ [obj'])"
    using B by (simp add: derive_def)
qed

lemma exec_obj_frame:
  assumes "exec_obj st obj = Inr obj'" and "n \<noteq> stmt_name st"
  shows "attrs obj' n = attrs obj n" and "hparam_types obj' n = hparam_types obj n"
  using assms
  by (cases st; auto simp: add_hparam_def set_hparam_def setattr_py_def register_type_def
        split: if_splits option.splits list.splits sum.splits prod.splits pyval.splits)+

lemma exec_objs_frame:
  assumes "exec_objs sts obj = (res, obj')" and "n \<notin> stmt_name ` set sts"
  shows "attrs obj' n = attrs obj n \<and> hparam_types obj' n = hparam_types obj n"
  using assms
proof (induction sts arbitrary: obj)
  case Nil
  then show ?case by simp
next
  case (Cons st sts)
  show ?case
  proof (cases "exec_obj st obj")
    case (Inl e)
    then show ?thesis using Cons.prems by simp
  next
    case (Inr o1)
    have n: "n \<noteq> stmt_name st" "n \<notin> stmt_name ` set sts" using Cons.prems(2) by auto
    have "exec_objs sts o1 = (res, obj')" using Cons.prems(1) Inr by simp
    from Cons.IH [OF this n(2)] exec_obj_frame [OF Inr n(1)] show ?thesis by simp
  qed
qed



lemma getattr_default_setattr [simp]:
  "getattr_default (setattr_py k v obj) n d = (if n = k then v else getattr_default obj n d)"
  by (simp add: getattr_default_def setattr_py_def)

lemma getattr_default_register [simp]:
  "getattr_default (register_type k ty obj) n d = getattr_default obj n d"
  by (simp add: getattr_default_def register_type_def)

lemma attrs_setattr [simp]:
  "attrs (setattr_py k v obj) n = (if n = k then Some v else attrs obj n)"
  by (simp add: setattr_py_def)

lemma attrs_register [simp]: "attrs (register_type k ty obj) = attrs obj"
  by (simp add: register_type_def)

lemma types_setattr [simp]: "hparam_types (setattr_py k v obj) = hparam_types obj"
  by (simp add: setattr_py_def)

lemma types_register [simp]:
  "hparam_types (register_type k ty obj) n = (if n = k then Some ty else hparam_types obj n)"
  by (simp add: register_type_def)

text \<open>
  Assignments never raise, and adding hyperparameters under distinct, free names never
  raises either.
\<close>

lemma exec_obj_addable:
  assumes "addable obj st"
  shows "\<exists>obj'. exec_obj st obj = Inr obj'"
proof (cases st)
  case (Assign n v)
  then show ?thesis by simp
next
  case (Add_hparam n v)
  then show ?thesis using assms
    by (cases "seq_items v"; simp add: add_hparam_def split: list.splits)
next
  case (Set_hparam n v)
  then show ?thesis using assms by simp
qed

lemma addable_frame:
  assumes "addable obj st" and "attrs obj' (stmt_name st) = attrs obj (stmt_name st)"
  shows "addable obj' st"
  using assms by (cases st) (simp_all add: getattr_default_def)

lemma exec_objs_addable:
  assumes "distinct (map stmt_name sts)" and "\<forall>st \<in> set sts. addable obj st"
  shows "fst (exec_objs sts obj) = None"
  using assms
proof (induction sts arbitrary: obj)
  case Nil
  then show ?case by simp
next
  case (Cons st sts)
  from Cons.prems(2) have "addable obj st" by simp
  then obtain o1 where o1: "exec_obj st obj = Inr o1" using exec_obj_addable by blast
  have "\<forall>s \<in> set sts. addable o1 s"
  proof
    fix s assume s: "s \<in> set sts"
    then have "stmt_name s \<in> set (map stmt_name sts)" by simp
    moreover have "stmt_name st \<notin> set (map stmt_name sts)" using Cons.prems(1) by simp
    ultimately have "stmt_name s \<noteq> stmt_name st" by metis
    then have "attrs o1 (stmt_name s) = attrs obj (stmt_name s)"
      using exec_obj_frame(1) [OF o1] by simp
    moreover have "addable obj s" using Cons.prems(2) s by simp
    ultimately show "addable o1 s" by (rule addable_frame [rotated])
  qed
  moreover have "distinct (map stmt_name sts)" using Cons.prems(1) by simp
  ultimately have "fst (exec_objs sts o1) = None" by (rule Cons.IH [rotated])
  then show ?case using o1 by simp
qed

lemma exec_objs_assigns:
  assumes "\<forall>st \<in> set sts. is_Assign st"
  shows "fst (exec_objs sts obj) = None"
  using assms
proof (induction sts arbitrary: obj)
  case Nil
  then show ?case by simp
next
  case (Cons st sts)
  then show ?case by (cases st) simp_all
qed

lemma builds_derive_ok:
  assumes "builds B obj" and "fst (exec_objs sts obj) = None"
  shows "builds (derive B sts) (snd (exec_objs sts obj))"
  using builds_derive [OF assms(1), of sts "snd (exec_objs sts obj)"] assms(2)
  by (simp add: prod_eq_iff)

lemma same_outside_exec_objs:
  assumes "stmt_name ` set sts \<subseteq> ov"
  shows "same_outside ov (snd (exec_objs sts obj)) obj"
  unfolding same_outside_def
proof (intro allI impI)
  fix n assume "n \<notin> ov"
  then have "n \<notin> stmt_name ` set sts" using assms by auto
  then show "attrs (snd (exec_objs sts obj)) n = attrs obj n
      \<and> hparam_types (snd (exec_objs sts obj)) n = hparam_types obj n"
    using exec_objs_frame [of sts obj] by (simp add: prod_eq_iff)
qed

lemma derived_presetI:
  assumes "builds B obj" and "builds P obj'" and "same_outside ov obj' obj"
  shows "derived_preset P B ov"
  using assms by (simp add: derived_preset_def builds_def)

lemma fresh_same_outside:
  assumes "same_outside ov obj' obj" and "n \<notin> ov" and "getattr_default obj n PNone = PNone"
  shows "getattr_default obj' n PNone = PNone"
  using assms by (simp add: same_outside_def getattr_default_def)

lemma basic_params1_builds: "builds (basic_params1 bp) bp"
  by (simp add: basic_params1_def builds_new_object)

lemma derive_addable:
  assumes "builds B obj" and "distinct (map stmt_name sts)"
    and "\<forall>st \<in> set sts. addable obj st" and "stmt_name ` set sts \<subseteq> ov"
  shows "builds (derive B sts) (snd (exec_objs sts obj))
         \<and> same_outside ov (snd (exec_objs sts obj)) obj"
  using builds_derive_ok [OF assms(1) exec_objs_addable [OF assms(2,3)]]
    same_outside_exec_objs [OF assms(4)] by simp

lemma derive_assigns:
  assumes "builds B obj" and "\<forall>st \<in> set sts. is_Assign st" and "stmt_name ` set sts \<subseteq> ov"
  shows "builds (derive B sts) (snd (exec_objs sts obj))
         \<and> same_outside ov (snd (exec_objs sts obj)) obj"
  using builds_derive_ok [OF assms(1) exec_objs_assigns [OF assms(2)]]
    same_outside_exec_objs [OF assms(3)] by simp

text \<open>Each preset function builds one object, related to the object of its base.\<close>

lemma ppo_base_v1_builds:
  assumes "fresh_base bp"
  shows "\<exists>obj. builds (ppo_base_v1 bp) obj \<and> same_outside
     {''learning_rate_schedule'', ''learning_rate_constant'', ''clip_grad_norm'',
      ''lr_decay_in_final_epoch'', ''init_mean_factor'', ''init_logstd'', ''policy_layers'',
      ''value_layers'', ''clipping_coef'', ''gae_gamma'', ''gae_lambda'', ''entropy_loss_coef'',
      ''value_loss_coef'', ''optimization_epochs'', ''epoch_length'', ''epochs_num'',
      ''eval_every_epochs'', ''save_models_every_epochs'', ''optimization_batch_size'',
      ''intrinsic_reward_scale'', ''logits_clip'', ''dropout_ppo'', ''effective_num_agents''}
     obj bp"
  unfolding ppo_base_v1_def
  apply (rule exI)
  apply (rule derive_addable [OF basic_params1_builds])
    apply simp
  using assms apply (simp add: fresh_base_def)
  apply simp
  done

lemma fresh_policy_network: "fresh_base bp \<Longrightarrow> getattr_default bp ''policy_network'' PNone = PNone"
  by (simp add: fresh_base_def)

lemma discrete_random_action_base_builds:
  assumes "fresh_base bp"
  shows "\<exists>obj. builds (discrete_random_action_base bp) obj
           \<and> same_outside {''policy_network''} obj bp"
  unfolding discrete_random_action_base_def
  apply (rule exI)
  apply (rule derive_addable [OF basic_params1_builds])
  using fresh_policy_network [OF assms] apply simp_all
  done

lemma ppo_discrete_action_base_builds:
  assumes "builds (ppo_base_v1 bp) obj" and "getattr_default obj ''policy_network'' PNone = PNone"
  shows "\<exists>obj'. builds (ppo_discrete_action_base bp) obj'
           \<and> same_outside {''policy_network''} obj' obj"
  unfolding ppo_discrete_action_base_def
  apply (rule exI)
  apply (rule derive_addable [OF assms(1)])
  using assms(2) apply simp_all
  done

lemma ppo_atari_base_builds:
  assumes "builds (ppo_discrete_action_base bp) obj"
  shows "\<exists>obj'. builds (ppo_atari_base bp) obj'
           \<and> same_outside {''learning_rate_constant'', ''epoch_length'', ''gae_gamma'',
                ''gae_lambda'', ''entropy_loss_coef'', ''value_loss_coef'',
                ''optimization_epochs'', ''epochs_num'', ''policy_network'', ''clipping_coef'',
                ''optimization_batch_size'', ''clip_grad_norm''} obj' obj
           \<and> attrs obj' ''policy_network''
               = Some (PStr ''feed_forward_cnn_small_categorical_policy'')"
  unfolding ppo_atari_base_def
  apply (rule exI)
  apply (intro conjI)
     apply (rule builds_derive_ok [OF assms exec_objs_assigns])
     apply simp
    apply (rule same_outside_exec_objs)
    apply simp
   apply simp_all
  done

lemma ppo_original_params_builds:
  assumes "builds (ppo_atari_base bp) obj"
  shows "\<exists>obj'. builds (ppo_original_params bp) obj'
           \<and> same_outside {''learning_rate_constant'', ''gae_gamma'', ''gae_lambda'',
                ''clipping_coef'', ''value_loss_coef'', ''entropy_loss_coef'',
                ''eval_every_epochs'', ''dropout_ppo'', ''epoch_length'',
                ''optimization_batch_size''} obj' obj"
  unfolding ppo_original_params_def
  apply (rule exI)
  apply (rule derive_assigns [OF assms])
  apply simp_all
  done

lemma ppo_pong_ae_base_builds:
  assumes "builds (ppo_original_params bp) obj"
  shows "\<exists>obj'. builds (ppo_pong_ae_base bp) obj'
           \<and> same_outside {''learning_rate_constant'', ''network''} obj' obj
           \<and> attrs obj' ''network'' = Some (PStr ''dense_bitwise_categorical_policy'')
           \<and> hparam_types obj' = hparam_types obj"
  unfolding ppo_pong_ae_base_def
  apply (rule exI)
  apply (intro conjI)
     apply (rule builds_derive_ok [OF assms exec_objs_assigns])
     apply simp
    apply (rule same_outside_exec_objs)
    apply simp
   apply simp_all
  done



lemma dqn_atari_base_builds:
  "\<exists>obj. builds dqn_atari_base obj \<and> hparam_types obj ''num_frames'' = Some (TInt, False)"
  unfolding dqn_atari_base_def HParams_def
  apply (rule exI)
  apply (intro conjI)
   apply (rule builds_derive_ok [OF builds_new_object exec_objs_addable])
    apply simp
   apply (simp add: getattr_default_def)
  apply (simp add: add_hparam_def getattr_default_def)
  done

lemma dqn_original_params_builds:
  assumes "builds dqn_atari_base obj" and "hparam_types obj ''num_frames'' = Some (TInt, False)"
  shows "\<exists>obj'. builds dqn_original_params obj' \<and> same_outside {''num_frames''} obj' obj"
  unfolding dqn_original_params_def
  apply (rule exI)
  apply (intro conjI)
   apply (rule builds_derive_ok [OF assms(1)])
   apply (simp add: set_hparam_def assms(2) cast_to_type_if_compatible_def is_integral_def
      is_number_def)
  apply (rule same_outside_exec_objs)
  apply simp
  done

lemma rlmf_original_builds:
  "\<exists>obj. builds rlmf_original obj
     \<and> getattr_default obj ''ppo_epochs_num'' PNone = PNone
     \<and> getattr_default obj ''ppo_eval_every_epochs'' PNone = PNone"
  unfolding rlmf_original_def HParams_def
  apply (rule exI)
  apply (intro conjI)
   apply (rule builds_derive_ok [OF builds_new_object exec_objs_addable])
    apply simp
   apply (simp add: getattr_default_def)
   apply (rule fresh_same_outside [OF same_outside_exec_objs [OF subset_refl]])
    apply simp
   apply (simp add: getattr_default_def)
   apply (rule fresh_same_outside [OF same_outside_exec_objs [OF subset_refl]])
    apply simp
   apply (simp add: getattr_default_def)
  done

lemma rlmf_base_builds:
  assumes "builds rlmf_original obj"
    and "getattr_default obj ''ppo_epochs_num'' PNone = PNone"
    and "getattr_default obj ''ppo_eval_every_epochs'' PNone = PNone"
  shows "\<exists>obj'. builds rlmf_base obj'
     \<and> same_outside {''ppo_epochs_num'', ''ppo_eval_every_epochs''} obj' obj"
  unfolding rlmf_base_def
  apply (rule exI)
  apply (rule derive_addable [OF assms(1)])
  using assms(2,3) apply simp_all
  done

lemma rlmf_tiny_builds:
  assumes "builds rlmf_base obj"
  shows "\<exists>obj'. builds rlmf_tiny obj'
     \<and> same_outside {''ppo_epochs_num'', ''ppo_eval_every_epochs''} obj' obj"
  unfolding rlmf_tiny_def
  apply (rule exI)
  apply (rule derive_assigns [OF assms])
  apply simp_all
  done

text \<open>
  Claim C3. Every preset function of the module that starts from a base preset function
  and then overrides or adds fields returns a newly constructed object that agrees with
  the base function's object on every field outside the overridden ones, and leaves every
  object constructed before the call unchanged. The PPO presets start from the object of
  \<^verbatim>\<open>basic_params1\<close>, where the names they add must be free.
\<close>

theorem preset_inheritance:
  assumes "fresh_base bp"
  shows "derived_preset (ppo_base_v1 bp) (basic_params1 bp)
           {''learning_rate_schedule'', ''learning_rate_constant'', ''clip_grad_norm'',
            ''lr_decay_in_final_epoch'', ''init_mean_factor'', ''init_logstd'',
            ''policy_layers'', ''value_layers'', ''clipping_coef'', ''gae_gamma'',
            ''gae_lambda'', ''entropy_loss_coef'', ''value_loss_coef'', ''optimization_epochs'',
            ''epoch_length'', ''epochs_num'', ''eval_every_epochs'',
            ''save_models_every_epochs'', ''optimization_batch_size'',
            ''intrinsic_reward_scale'', ''logits_clip'', ''dropout_ppo'',
            ''effective_num_agents''}
       \<and> derived_preset (discrete_random_action_base bp) (basic_params1 bp)
           {''policy_network''}
       \<and> derived_preset (ppo_discrete_action_base bp) (ppo_base_v1 bp) {''policy_network''}
       \<and> derived_preset (ppo_atari_base bp) (ppo_discrete_action_base bp)
           {''learning_rate_constant'', ''epoch_length'', ''gae_gamma'', ''gae_lambda'',
            ''entropy_loss_coef'', ''value_loss_coef'', ''optimization_epochs'', ''epochs_num'',
            ''policy_network'', ''clipping_coef'', ''optimization_batch_size'',
            ''clip_grad_norm''}
       \<and> derived_preset (ppo_original_params bp) (ppo_atari_base bp)
           {''learning_rate_constant'', ''gae_gamma'', ''gae_lambda'', ''clipping_coef'',
            ''value_loss_coef'', ''entropy_loss_coef'', ''eval_every_epochs'', ''dropout_ppo'',
            ''epoch_length'', ''optimization_batch_size''}
       \<and> derived_preset (ppo_pong_ae_base bp) (ppo_original_params bp)
           {''learning_rate_constant'', ''network''}
       \<and> derived_preset dqn_original_params dqn_atari_base {''num_frames''}
       \<and> derived_preset rlmf_base rlmf_original {''ppo_epochs_num'', ''ppo_eval_every_epochs''}
       \<and> derived_preset rlmf_tiny rlmf_base {''ppo_epochs_num'', ''ppo_eval_every_epochs''}"
proof -
  from ppo_base_v1_builds [OF assms] obtain o1 where
    o1: "builds (ppo_base_v1 bp) o1" and s1: "same_outside
     {''learning_rate_schedule'', ''learning_rate_constant'', ''clip_grad_norm'',
      ''lr_decay_in_final_epoch'', ''init_mean_factor'', ''init_logstd'', ''policy_layers'',
      ''value_layers'', ''clipping_coef'', ''gae_gamma'', ''gae_lambda'', ''entropy_loss_coef'',
      ''value_loss_coef'', ''optimization_epochs'', ''epoch_length'', ''epochs_num'',
      ''eval_every_epochs'', ''save_models_every_epochs'', ''optimization_batch_size'',
      ''intrinsic_reward_scale'', ''logits_clip'', ''dropout_ppo'', ''effective_num_agents''}
     o1 bp" by blast
  have f1: "getattr_default o1 ''policy_network'' PNone = PNone"
    by (rule fresh_same_outside [OF s1 _ fresh_policy_network [OF assms]]) simp
  from discrete_random_action_base_builds [OF assms] obtain od where
    od: "builds (discrete_random_action_base bp) od" "same_outside {''policy_network''} od bp"
    by blast
  from ppo_discrete_action_base_builds [OF o1 f1] obtain o2 where
    o2: "builds (ppo_discrete_action_base bp) o2" "same_outside {''policy_network''} o2 o1"
    by blast
  from ppo_atari_base_builds [OF o2(1)] obtain o3 where
    o3: "builds (ppo_atari_base bp) o3" and s3: "same_outside
       {''learning_rate_constant'', ''epoch_length'', ''gae_gamma'', ''gae_lambda'',
        ''entropy_loss_coef'', ''value_loss_coef'', ''optimization_epochs'', ''epochs_num'',
        ''policy_network'', ''clipping_coef'', ''optimization_batch_size'',
        ''clip_grad_norm''} o3 o2" by blast
  from ppo_original_params_builds [OF o3] obtain o4 where
    o4: "builds (ppo_original_params bp) o4" and s4: "same_outside
       {''learning_rate_constant'', ''gae_gamma'', ''gae_lambda'', ''clipping_coef'',
        ''value_loss_coef'', ''entropy_loss_coef'', ''eval_every_epochs'', ''dropout_ppo'',
        ''epoch_length'', ''optimization_batch_size''} o4 o3" by blast
  from ppo_pong_ae_base_builds [OF o4] obtain o5 where
    o5: "builds (ppo_pong_ae_base bp) o5"
    and s5: "same_outside {''learning_rate_constant'', ''network''} o5 o4" by blast
  from dqn_atari_base_builds obtain d1 where
    d1: "builds dqn_atari_base d1" "hparam_types d1 ''num_frames'' = Some (TInt, False)"
    by blast
  from dqn_original_params_builds [OF d1] obtain d2 where
    d2: "builds dqn_original_params d2" "same_outside {''num_frames''} d2 d1" by blast
  from rlmf_original_builds obtain r1 where
    r1: "builds rlmf_original r1" "getattr_default r1 ''ppo_epochs_num'' PNone = PNone"
      "getattr_default r1 ''ppo_eval_every_epochs'' PNone = PNone" by blast
  from rlmf_base_builds [OF r1] obtain r2 where
    r2: "builds rlmf_base r2"
      "same_outside {''ppo_epochs_num'', ''ppo_eval_every_epochs''} r2 r1" by blast
  from rlmf_tiny_builds [OF r2(1)] obtain r3 where
    r3: "builds rlmf_tiny r3"
      "same_outside {''ppo_epochs_num'', ''ppo_eval_every_epochs''} r3 r2" by blast
  show ?thesis
    by (intro conjI)
      (rule derived_presetI [OF basic_params1_builds o1 s1],
       rule derived_presetI [OF basic_params1_builds od],
       rule derived_presetI [OF o1 o2],
       rule derived_presetI [OF o2(1) o3 s3],
       rule derived_presetI [OF o3 o4 s4],
       rule derived_presetI [OF o4 o5 s5],
       rule derived_presetI [OF d1(1) d2],
       rule derived_presetI [OF r1(1) r2],
       rule derived_presetI [OF r2(1) r3])
qed


lemma fresh_sample: "fresh_base sample_basic_params"
  by (simp add: fresh_base_def sample_basic_params_def getattr_default_def)

theorem preset_inheritance_witness:
  "fresh_base sample_basic_params
   \<and> (\<exists>r h' hB. ppo_atari_base sample_basic_params [] = (Inr r, h')
         \<and> ppo_discrete_action_base sample_basic_params [] = (Inr r, hB)
         \<and> ''batch_size'' \<notin> {''learning_rate_constant'', ''epoch_length'', ''gae_gamma'',
              ''gae_lambda'', ''entropy_loss_coef'', ''value_loss_coef'', ''optimization_epochs'',
              ''epochs_num'', ''policy_network'', ''clipping_coef'', ''optimization_batch_size'',
              ''clip_grad_norm''}
         \<and> attrs (h' ! r) ''batch_size'' = attrs (hB ! r) ''batch_size'')"
proof -
  have f: "fresh_base sample_basic_params" by (rule fresh_sample)
  have "derived_preset (ppo_atari_base sample_basic_params)
          (ppo_discrete_action_base sample_basic_params)
          {''learning_rate_constant'', ''epoch_length'', ''gae_gamma'', ''gae_lambda'',
            ''entropy_loss_coef'', ''value_loss_coef'', ''optimization_epochs'', ''epochs_num'',
            ''policy_network'', ''clipping_coef'', ''optimization_batch_size'',
            ''clip_grad_norm''}"
    by (rule preset_inheritance [OF f, THEN conjunct2, THEN conjunct2, THEN conjunct2,
          THEN conjunct1])
  then obtain r h' hB where
    run: "ppo_atari_base sample_basic_params [] = (Inr r, h')"
      "ppo_discrete_action_base sample_basic_params [] = (Inr r, hB)"
    and so: "same_outside {''learning_rate_constant'', ''epoch_length'', ''gae_gamma'', ''gae_lambda'',
            ''entropy_loss_coef'', ''value_loss_coef'', ''optimization_epochs'', ''epochs_num'',
            ''policy_network'', ''clipping_coef'', ''optimization_batch_size'',
            ''clip_grad_norm''} (h' ! r) (hB ! r)"
    unfolding derived_preset_def by (elim allE [of _ "[]"] exE conjE)
  have nin: "''batch_size'' \<notin> {''learning_rate_constant'', ''epoch_length'', ''gae_gamma'',
              ''gae_lambda'', ''entropy_loss_coef'', ''value_loss_coef'', ''optimization_epochs'',
              ''epochs_num'', ''policy_network'', ''clipping_coef'', ''optimization_batch_size'',
              ''clip_grad_norm''}" by simp
  from so nin have eq: "attrs (h' ! r) ''batch_size'' = attrs (hB ! r) ''batch_size''"
    unfolding same_outside_def by (elim allE [of _ "''batch_size''"]) (rule conjunct1, erule mp)
  show ?thesis
    by (intro conjI exI [of _ r] exI [of _ h'] exI [of _ hB]) (rule f run nin eq)+
qed

text \<open>
  Claim C10. The object returned by \<^verbatim>\<open>ppo_pong_ae_base\<close> still has
  \<^verbatim>\<open>policy_network\<close> equal to \<^verbatim>\<open>"feed_forward_cnn_small_categorical_policy"\<close>, the value
  that \<^verbatim>\<open>ppo_atari_base\<close> assigned and \<^verbatim>\<open>ppo_original_params\<close> kept; the string
  \<^verbatim>\<open>"dense_bitwise_categorical_policy"\<close> is the value of the attribute \<^verbatim>\<open>network\<close>; the
  table of registered hyperparameters is that of \<^verbatim>\<open>ppo_original_params\<close>, and no
  attribute other than \<^verbatim>\<open>learning_rate_constant\<close> and \<^verbatim>\<open>network\<close> differs from it.
\<close>

theorem ppo_pong_ae_base_policy_network:
  assumes "fresh_base bp"
  shows "\<exists>r h' hO hA.
           ppo_pong_ae_base bp h = (Inr r, h')
         \<and> ppo_original_params bp h = (Inr r, hO)
         \<and> ppo_atari_base bp h = (Inr r, hA)
         \<and> attrs (hA ! r) ''policy_network''
             = Some (PStr ''feed_forward_cnn_small_categorical_policy'')
         \<and> attrs (hO ! r) ''policy_network''
             = Some (PStr ''feed_forward_cnn_small_categorical_policy'')
         \<and> attrs (h' ! r) ''policy_network''
             = Some (PStr ''feed_forward_cnn_small_categorical_policy'')
         \<and> attrs (h' ! r) ''network'' = Some (PStr ''dense_bitwise_categorical_policy'')
         \<and> hparam_types (h' ! r) = hparam_types (hO ! r)
         \<and> (\<forall>n. n \<notin> {''learning_rate_constant'', ''network''}
                \<longrightarrow> attrs (h' ! r) n = attrs (hO ! r) n)"
proof -
  from ppo_base_v1_builds [OF assms] obtain o1 where
    o1: "builds (ppo_base_v1 bp) o1" and s1: "same_outside
     {''learning_rate_schedule'', ''learning_rate_constant'', ''clip_grad_norm'',
      ''lr_decay_in_final_epoch'', ''init_mean_factor'', ''init_logstd'', ''policy_layers'',
      ''value_layers'', ''clipping_coef'', ''gae_gamma'', ''gae_lambda'', ''entropy_loss_coef'',
      ''value_loss_coef'', ''optimization_epochs'', ''epoch_length'', ''epochs_num'',
      ''eval_every_epochs'', ''save_models_every_epochs'', ''optimization_batch_size'',
      ''intrinsic_reward_scale'', ''logits_clip'', ''dropout_ppo'', ''effective_num_agents''}
     o1 bp" by blast
  have f1: "getattr_default o1 ''policy_network'' PNone = PNone"
    by (rule fresh_same_outside [OF s1 _ fresh_policy_network [OF assms]]) simp
  from ppo_discrete_action_base_builds [OF o1 f1] obtain o2 where
    o2: "builds (ppo_discrete_action_base bp) o2" by blast
  from ppo_atari_base_builds [OF o2] obtain o3 where
    o3: "builds (ppo_atari_base bp) o3"
    and p3: "attrs o3 ''policy_network''
               = Some (PStr ''feed_forward_cnn_small_categorical_policy'')" by blast
  from ppo_original_params_builds [OF o3] obtain o4 where
    o4: "builds (ppo_original_params bp) o4" and s4: "same_outside
       {''learning_rate_constant'', ''gae_gamma'', ''gae_lambda'', ''clipping_coef'',
        ''value_loss_coef'', ''entropy_loss_coef'', ''eval_every_epochs'', ''dropout_ppo'',
        ''epoch_length'', ''optimization_batch_size''} o4 o3" by blast
  from ppo_pong_ae_base_builds [OF o4] obtain o5 where
    o5: "builds (ppo_pong_ae_base bp) o5"
    and s5: "same_outside {''learning_rate_constant'', ''network''} o5 o4"
    and n5: "attrs o5 ''network'' = Some (PStr ''dense_bitwise_categorical_policy'')"
    and t5: "hparam_types o5 = hparam_types o4" by blast
  have p4: "attrs o4 ''policy_network'' = attrs o3 ''policy_network''"
    using s4 unfolding same_outside_def by simp
  have p5: "attrs o5 ''policy_network'' = attrs o4 ''policy_network''"
    using s5 unfolding same_outside_def by simp
  have fr: "\<forall>n. n \<notin> {''learning_rate_constant'', ''network''} \<longrightarrow> attrs o5 n = attrs o4 n"
    using s5 unfolding same_outside_def by blast
  have "ppo_pong_ae_base bp h = (Inr (length h), h @ [o5])"
    and "ppo_original_params bp h = (Inr (length h), h @ [o4])"
    and "ppo_atari_base bp h = (Inr (length h), h @ [o3])"
    using o5 o4 o3 by (simp_all add: builds_def)
  moreover have "attrs ((h @ [o3]) ! length h) ''policy_network''
      = Some (PStr ''feed_forward_cnn_small_categorical_policy'')" using p3 by simp
  moreover have "attrs ((h @ [o4]) ! length h) ''policy_network''
      = Some (PStr ''feed_forward_cnn_small_categorical_policy'')" using p3 p4 by simp
  moreover have "attrs ((h @ [o5]) ! length h) ''policy_network''
      = Some (PStr ''feed_forward_cnn_small_categorical_policy'')" using p3 p4 p5 by simp
  moreover have "attrs ((h @ [o5]) ! length h) ''network''
      = Some (PStr ''dense_bitwise_categorical_policy'')" using n5 by simp
  moreover have "hparam_types ((h @ [o5]) ! length h) = hparam_types ((h @ [o4]) ! length h)"
    using t5 by simp
  moreover have "\<forall>n. n \<notin> {''learning_rate_constant'', ''network''}
      \<longrightarrow> attrs ((h @ [o5]) ! length h) n = attrs ((h @ [o4]) ! length h) n"
    using fr by simp
  ultimately show ?thesis
    by (intro exI [of _ "length h"] exI [of _ "h @ [o5]"] exI [of _ "h @ [o4]"]
          exI [of _ "h @ [o3]"] conjI)
qed

theorem ppo_pong_ae_base_policy_network_witness:
  "fresh_base sample_basic_params
   \<and> (\<exists>r h'. ppo_pong_ae_base sample_basic_params [] = (Inr r, h')
         \<and> attrs (h' ! r) ''policy_network''
             = Some (PStr ''feed_forward_cnn_small_categorical_policy'')
         \<and> attrs (h' ! r) ''network'' = Some (PStr ''dense_bitwise_categorical_policy''))"
proof -
  have f: "fresh_base sample_basic_params"
    by (simp add: fresh_base_def sample_basic_params_def getattr_default_def)
  from ppo_pong_ae_base_policy_network [OF f, of "[]"] obtain r h' where
    "ppo_pong_ae_base sample_basic_params [] = (Inr r, h')"
    "attrs (h' ! r) ''policy_network''
             = Some (PStr ''feed_forward_cnn_small_categorical_policy'')"
    "attrs (h' ! r) ''network'' = Some (PStr ''dense_bitwise_categorical_policy'')"
    by (elim exE conjE)
  then show ?thesis using f
    by (intro conjI exI [of _ r] exI [of _ h'])
qed

section \<open>Properties of the random policy\<close>

lemma index_shape_list_static:
  assumes "static_shape t = Some ds" and "k < length ds" and "ds ! k = Some n"
  shows "index_at (shape_list t) k = Inr (Py_int (int n))"
  using assms by (simp add: shape_list_def nth_enumerate_eq)

lemma map_result_static_ints:
  "map_result static_int (map (\<lambda>n. Py_int (int n)) ns) = Inr (map int ns)"
  by (induction ns) simp_all

lemma map_result_run_ints:
  "map_result run_int (map (\<lambda>n. Py_int (int n)) ns) = Inr (map int ns)"
  by (induction ns) simp_all

lemma tf_constant_static:
  "tf_constant v (map (\<lambda>n. Py_int (int n)) ns) = Inr (filled (convert binary32 v) ns)"
  by (simp add: tf_constant_def map_result_static_ints comp_def)

lemma tf_zeros_static:
  "tf_zeros (Py_list (map (\<lambda>n. Py_int (int n)) ns)) = Inr (filled (Fin 0) ns)"
  by (simp add: map_result_run_ints comp_def filled_def)

lemma py_float_dimension:
  assumes "0 < N" and "N < 2 ^ 63"
  shows "py_float (Py_int (int N)) = Inr (round_real binary64 (real N))"
    and "0 < round_real binary64 (real N)"
proof -
  let ?x = "real N"
  have x: "1 \<le> ?x" using assms(1) by simp
  then have pos: "0 < ?x" by simp
  have "0 \<le> log 2 ?x" using x by simp
  then have "0 \<le> \<lfloor>log 2 ?x\<rfloor>" by simp
  then have e: "1 - emax binary64 \<le> \<lfloor>log 2 ?x\<rfloor>" by (simp add: binary64_def)
  have p: "1 \<le> precision binary64" by (simp add: binary64_def)
  note b = round_real_normal [OF pos e p]
  show r0: "0 < round_real binary64 ?x" using b(1) pos by linarith
  have "?x < 2 ^ 63" using assms(2) by (metis of_nat_less_iff of_nat_numeral of_nat_power)
  then have "round_real binary64 ?x < 3 * 2 ^ 63 / 2" using b(2) by linarith
  also have "\<dots> < (2::real) ^ 1024" by simp
  finally have "round_real binary64 ?x < pow2 (emax binary64 + 1)"
    by (simp add: pow2_def binary64_def)
  then have "to_float binary64 ?x = Fin (round_real binary64 ?x)"
    using r0 pow2_pos [of "emax binary64 + 1"] by (simp add: to_float_def)
  then show "py_float (Py_int (int N)) = Inr (round_real binary64 ?x)" by simp
qed

text \<open>
  Claim C4, for a positive action count and in floats. When the observations under
  \<^verbatim>\<open>"inputs"\<close> have static shape \<open>(B, T, ...)\<close> and the tensor under \<^verbatim>\<open>"target_action"\<close>
  has \<open>N\<close> as its third static dimension, with \<open>0 < N < 2^63\<close> (a dimension is a 64-bit
  integer), \<open>RandomPolicy_body\<close> returns under \<^verbatim>\<open>"target_action"\<close> a tensor of shape
  \<open>(B, T, N)\<close> whose entries all equal \<^verbatim>\<open>1. / float(N)\<close> as Python computes it in doubles,
  rounded to a 32-bit float, and under \<^verbatim>\<open>"target_value"\<close> a tensor of shape \<open>(B, T)\<close> whose
  entries are all \<open>0\<close>.
\<close>

theorem random_policy_uniform:
  assumes "features ''inputs'' = Some observations"
    and "static_shape observations = Some (Some B # Some T # rest)"
    and "features ''target_action'' = Some target"
    and "static_shape target = Some ds" and "2 < length ds" and "ds ! 2 = Some N"
    and "0 < N" and "N < 2 ^ 63"
  shows "\<exists>logits value.
           RandomPolicy_body features
             = Inr [''target_action'' \<mapsto> logits, ''target_value'' \<mapsto> value]
         \<and> static_shape logits = Some [Some B, Some T, Some N] \<and> shape logits = [B, T, N]
         \<and> entries logits
             = replicate (B * T * N)
                 (convert binary32 (to_float binary64 (1 / round_real binary64 (real N))))
         \<and> static_shape value = Some [Some B, Some T] \<and> shape value = [B, T]
         \<and> entries value = replicate (B * T) (Fin 0)"
proof -
  let ?p = "to_float binary64 (1 / round_real binary64 (real N))"
  have obs: "as_list observations
      = Inr (Py_int (int B) # Py_int (int T)
              # map (\<lambda>d. case d of None \<Rightarrow> NoneDim | Some n \<Rightarrow> Py_int (int n)) rest)"
    using assms(2) by (simp add: as_list_def)
  have num: "get_num_actions features = Inr (Py_int (int N))"
    using assms(3) index_shape_list_static [OF assms(4,5,6)] by (simp add: get_num_actions_def)
  note fl = py_float_dimension [OF assms(7,8)]
  have div: "truediv 1 (round_real binary64 (real N)) = Inr ?p"
    using fl(2) by (simp add: truediv_def)
  have c: "tf_constant ?p [Py_int (int B), Py_int (int T), Py_int (int N)]
      = Inr (filled (convert binary32 ?p) [B, T, N])"
    using tf_constant_static [of ?p "[B, T, N]"] by simp
  have z: "tf_zeros (Py_list [Py_int (int B), Py_int (int T)]) = Inr (filled (Fin 0) [B, T])"
    using tf_zeros_static [of "[B, T]"] by simp
  have run: "RandomPolicy_body features
      = Inr [''target_action'' \<mapsto> filled (convert binary32 ?p) [B, T, N],
             ''target_value'' \<mapsto> filled (Fin 0) [B, T]]"
    using assms(1) obs num fl(1) div c z by (simp add: RandomPolicy_body_def)
  show ?thesis
    by (intro exI [of _ "filled (convert binary32 ?p) [B, T, N]"]
          exI [of _ "filled (Fin 0) [B, T]"] conjI)
       (simp_all add: run filled_def mult.assoc)
qed

text \<open>Rounding concrete numbers, and short constant lists.\<close>

lemma double_four: "round_real binary64 4 = 4"
  by (subst round_real_eval [where k = 2]) (simp_all add: pow2_def binary64_def rne_def Let_def)

lemma double_quarter: "to_float binary64 (1 / 4) = Fin (1 / 4)"
  by (rule to_float_eval [where k = "- 2"]) (simp_all add: pow2_def binary64_def rne_def Let_def)

lemma single_quarter: "to_float binary32 (1 / 4) = Fin (1 / 4)"
  by (rule to_float_eval [where k = "- 2"]) (simp_all add: pow2_def binary32_def rne_def Let_def)

lemma double_third:
  "to_float binary64 (1 / 3) = Fin (6004799503160661 / 18014398509481984)"
  by (rule to_float_eval [where k = "- 2"]) (simp_all add: pow2_def binary64_def rne_def Let_def)

lemma single_third:
  "to_float binary32 (6004799503160661 / 18014398509481984) = Fin (11184811 / 33554432)"
  by (rule to_float_eval [where k = "- 2"]) (simp_all add: pow2_def binary32_def rne_def Let_def)

lemma double_two: "to_float binary64 2 = Fin 2"
  by (rule to_float_eval [where k = 1]) (simp_all add: pow2_def binary64_def rne_def Let_def)

lemma double_half: "to_float binary64 (1 / 2) = Fin (1 / 2)"
  by (rule to_float_eval [where k = "- 1"]) (simp_all add: pow2_def binary64_def rne_def Let_def)

lemma single_half: "to_float binary32 (1 / 2) = Fin (1 / 2)"
  by (rule to_float_eval [where k = "- 1"]) (simp_all add: pow2_def binary32_def rne_def Let_def)

lemma replicate_2: "replicate 2 x = [x, x]"
  by (simp add: numeral_2_eq_2)

lemma replicate_3: "replicate 3 x = [x, x, x]"
  by (simp add: numeral_3_eq_3)

lemma replicate_8: "replicate 8 x = [x, x, x, x, x, x, x, x]"
  by (simp add: numeral_eq_Suc)

theorem random_policy_uniform_witness:
  "\<exists>logits value.
      RandomPolicy_body
        [''inputs'' \<mapsto> \<lparr>static_shape = Some [Some 1, Some 2, Some 2], shape = [1, 2, 2],
                         entries = [Fin 3, Fin 1, Fin 4, Fin 1]\<rparr>,
         ''target_action'' \<mapsto> \<lparr>static_shape = Some [Some 1, Some 2, Some 4], shape = [1, 2, 4],
                         entries = [Fin 0, Fin 0, Fin 0, Fin 0, Fin 0, Fin 0, Fin 0, Fin 0]\<rparr>]
        = Inr [''target_action'' \<mapsto> logits, ''target_value'' \<mapsto> value]
      \<and> shape logits = [1, 2, 4]
      \<and> entries logits = [Fin (1/4), Fin (1/4), Fin (1/4), Fin (1/4),
                           Fin (1/4), Fin (1/4), Fin (1/4), Fin (1/4)]
      \<and> shape value = [1, 2] \<and> entries value = [Fin 0, Fin 0]"
proof -
  let ?obs = "\<lparr>static_shape = Some [Some 1, Some 2, Some 2], shape = [1, 2, 2],
                         entries = [Fin 3, Fin 1, Fin 4, Fin 1]\<rparr>"
  let ?ta = "\<lparr>static_shape = Some [Some 1, Some 2, Some 4], shape = [1, 2, 4],
                         entries = [Fin 0, Fin 0, Fin 0, Fin 0, Fin 0, Fin 0, Fin 0, Fin 0]\<rparr>"
  let ?f = "[''inputs'' \<mapsto> ?obs, ''target_action'' \<mapsto> ?ta]"
  have 1: "?f ''inputs'' = Some ?obs" by simp
  have 2: "static_shape ?obs = Some (Some 1 # Some 2 # [Some 2])" by simp
  have 3: "?f ''target_action'' = Some ?ta" by simp
  have 4: "static_shape ?ta = Some [Some 1, Some 2, Some 4]" by simp
  have 5: "2 < length [Some (1::nat), Some 2, Some 4]" by simp
  have 6: "[Some (1::nat), Some 2, Some 4] ! 2 = Some 4" by simp
  have 7: "(0::nat) < 4" by simp
  have 8: "(4::nat) < 2 ^ 63" by simp
  from random_policy_uniform [OF 1 2 3 4 5 6 7 8] obtain logits "value" where
    r: "RandomPolicy_body ?f = Inr [''target_action'' \<mapsto> logits, ''target_value'' \<mapsto> value]"
    and l: "shape logits = [1, 2, 4]"
      "entries logits = replicate (1 * 2 * 4)
         (convert binary32 (to_float binary64 (1 / round_real binary64 (real 4))))"
    and v: "shape value = [1, 2]" "entries value = replicate (1 * 2) (Fin 0)"
    by (elim exE conjE)
  have "entries logits = [Fin (1/4), Fin (1/4), Fin (1/4), Fin (1/4),
                           Fin (1/4), Fin (1/4), Fin (1/4), Fin (1/4)]"
    using l(2) by (simp add: replicate_8 double_four double_quarter single_quarter)
  moreover have "entries value = [Fin 0, Fin 0]" using v(2) by (simp add: replicate_2)
  ultimately show ?thesis using r l(1) v(1)
    by (intro exI [of _ logits] exI [of _ "value"] conjI)
qed

text \<open>
  Claim C4 as it is worded fails in two ways. At an action count of zero,
  \<^verbatim>\<open>1. / float(num_actions)\<close> divides by zero and the body raises. At an action count of
  three, every entry is the 32-bit float nearest to the double \<^verbatim>\<open>1. / 3.\<close>, which is not
  \<open>1 / 3\<close>.
\<close>

theorem random_policy_not_uniform:
  "RandomPolicy_body
     [''inputs'' \<mapsto> \<lparr>static_shape = Some [Some 1, Some 1, Some 2], shape = [1, 1, 2],
                      entries = [Fin 3, Fin 1]\<rparr>,
      ''target_action'' \<mapsto> \<lparr>static_shape = Some [Some 1, Some 1, Some 0], shape = [1, 1, 0],
                      entries = []\<rparr>]
     = Inl (ZeroDivisionError ''float division by zero'')
   \<and> RandomPolicy_body
     [''inputs'' \<mapsto> \<lparr>static_shape = Some [Some 1, Some 1, Some 2], shape = [1, 1, 2],
                      entries = [Fin 3, Fin 1]\<rparr>,
      ''target_action'' \<mapsto> \<lparr>static_shape = Some [Some 1, Some 1, Some 3], shape = [1, 1, 3],
                      entries = [Fin 0, Fin 0, Fin 0]\<rparr>]
     = Inr [''target_action'' \<mapsto> \<lparr>static_shape = Some [Some 1, Some 1, Some 3],
                      shape = [1, 1, 3],
                      entries = [Fin (11184811 / 33554432), Fin (11184811 / 33554432),
                                 Fin (11184811 / 33554432)]\<rparr>,
            ''target_value'' \<mapsto> \<lparr>static_shape = Some [Some 1, Some 1], shape = [1, 1],
                      entries = [Fin 0]\<rparr>]
   \<and> (11184811 / 33554432 :: real) \<noteq> 1 / 3"
proof (intro conjI)
  show "RandomPolicy_body
     [''inputs'' \<mapsto> \<lparr>static_shape = Some [Some 1, Some 1, Some 2], shape = [1, 1, 2],
                      entries = [Fin 3, Fin 1]\<rparr>,
      ''target_action'' \<mapsto> \<lparr>static_shape = Some [Some 1, Some 1, Some 0], shape = [1, 1, 0],
                      entries = []\<rparr>]
     = Inl (ZeroDivisionError ''float division by zero'')"
    by (simp add: RandomPolicy_body_def as_list_def get_num_actions_def shape_list_def
      truediv_def enumerate_eq_zip)
  show "RandomPolicy_body
     [''inputs'' \<mapsto> \<lparr>static_shape = Some [Some 1, Some 1, Some 2], shape = [1, 1, 2],
                      entries = [Fin 3, Fin 1]\<rparr>,
      ''target_action'' \<mapsto> \<lparr>static_shape = Some [Some 1, Some 1, Some 3], shape = [1, 1, 3],
                      entries = [Fin 0, Fin 0, Fin 0]\<rparr>]
     = Inr [''target_action'' \<mapsto> \<lparr>static_shape = Some [Some 1, Some 1, Some 3],
                      shape = [1, 1, 3],
                      entries = [Fin (11184811 / 33554432), Fin (11184811 / 33554432),
                                 Fin (11184811 / 33554432)]\<rparr>,
            ''target_value'' \<mapsto> \<lparr>static_shape = Some [Some 1, Some 1], shape = [1, 1],
                      entries = [Fin 0]\<rparr>]"
    by (simp add: RandomPolicy_body_def as_list_def get_num_actions_def shape_list_def
      truediv_def enumerate_eq_zip tf_constant_def filled_def double_three double_third
      single_third replicate_3)
  show "(11184811 / 33554432 :: real) \<noteq> 1 / 3" by simp
qed


text \<open>
  Claim C5. Two feature mappings whose observations have the same static shape and whose
  \<^verbatim>\<open>"target_action"\<close> tensors give the same action count get the same result from
  \<open>RandomPolicy_body\<close>, whatever the entries of the observations are.
\<close>

theorem random_policy_noninterference:
  assumes "f1 ''inputs'' = Some o1" and "f2 ''inputs'' = Some o2"
    and "static_shape o1 = static_shape o2"
    and "get_num_actions f1 = get_num_actions f2"
  shows "RandomPolicy_body f1 = RandomPolicy_body f2"
proof -
  have "as_list o1 = as_list o2" using assms(3) by (simp add: as_list_def)
  then show ?thesis
    unfolding RandomPolicy_body_def assms(1) assms(2) assms(4) by simp
qed

theorem random_policy_noninterference_witness:
  "RandomPolicy_body
     [''inputs'' \<mapsto> \<lparr>static_shape = Some [Some 1, Some 1, Some 2], shape = [1, 1, 2],
                      entries = [Fin 3, Fin 1]\<rparr>,
      ''target_action'' \<mapsto> \<lparr>static_shape = Some [Some 1, Some 1, Some 2],
                      shape = [1, 1, 2], entries = [Fin 0, Fin 0]\<rparr>]
   = RandomPolicy_body
     [''inputs'' \<mapsto> \<lparr>static_shape = Some [Some 1, Some 1, Some 2], shape = [1, 1, 2],
                      entries = [Fin (- 7), Fin 255]\<rparr>,
      ''target_action'' \<mapsto> \<lparr>static_shape = Some [Some 1, Some 1, Some 2],
                      shape = [1, 1, 2], entries = [Fin 5, Fin 6]\<rparr>]
   \<and> RandomPolicy_body
     [''inputs'' \<mapsto> \<lparr>static_shape = Some [Some 1, Some 1, Some 2], shape = [1, 1, 2],
                      entries = [Fin (- 7), Fin 255]\<rparr>,
      ''target_action'' \<mapsto> \<lparr>static_shape = Some [Some 1, Some 1, Some 2],
                      shape = [1, 1, 2], entries = [Fin 5, Fin 6]\<rparr>]
   = Inr [''target_action'' \<mapsto> \<lparr>static_shape = Some [Some 1, Some 1, Some 2],
                      shape = [1, 1, 2], entries = [Fin (1 / 2), Fin (1 / 2)]\<rparr>,
          ''target_value'' \<mapsto> \<lparr>static_shape = Some [Some 1, Some 1],
                      shape = [1, 1], entries = [Fin 0]\<rparr>]"
proof -
  let ?o1 = "\<lparr>static_shape = Some [Some 1, Some 1, Some 2], shape = [1, 1, 2],
                      entries = [Fin 3, Fin 1]\<rparr>"
  let ?o2 = "\<lparr>static_shape = Some [Some 1, Some 1, Some 2], shape = [1, 1, 2],
                      entries = [Fin (- 7), Fin 255]\<rparr>"
  let ?a1 = "\<lparr>static_shape = Some [Some 1, Some 1, Some 2],
                      shape = [1, 1, 2], entries = [Fin 0, Fin 0]\<rparr>"
  let ?a2 = "\<lparr>static_shape = Some [Some 1, Some 1, Some 2],
                      shape = [1, 1, 2], entries = [Fin 5, Fin 6]\<rparr>"
  let ?f1 = "[''inputs'' \<mapsto> ?o1, ''target_action'' \<mapsto> ?a1]"
  let ?f2 = "[''inputs'' \<mapsto> ?o2, ''target_action'' \<mapsto> ?a2]"
  have 1: "?f1 ''inputs'' = Some ?o1" by simp
  have 2: "?f2 ''inputs'' = Some ?o2" by simp
  have 3: "static_shape ?o1 = static_shape ?o2" by simp
  have 4: "get_num_actions ?f1 = get_num_actions ?f2"
    by (simp add: get_num_actions_def shape_list_def)
  have "RandomPolicy_body ?f1 = RandomPolicy_body ?f2"
    by (rule random_policy_noninterference [OF 1 2 3 4])
  moreover have "RandomPolicy_body ?f2
     = Inr [''target_action'' \<mapsto> \<lparr>static_shape = Some [Some 1, Some 1, Some 2],
                      shape = [1, 1, 2], entries = [Fin (1 / 2), Fin (1 / 2)]\<rparr>,
          ''target_value'' \<mapsto> \<lparr>static_shape = Some [Some 1, Some 1],
                      shape = [1, 1], entries = [Fin 0]\<rparr>]"
    by (simp add: RandomPolicy_body_def as_list_def get_num_actions_def shape_list_def
      truediv_def enumerate_eq_zip tf_constant_def filled_def double_two double_half
      single_half replicate_2)
  ultimately show ?thesis by (rule conjI)
qed

section \<open>Properties of the action-space checks\<close>














text \<open>With an accepted action space both functions go on to build their outputs.\<close>

lemma get_policy_random_example:
  "get_policy random_policy_registry
        \<lparr>static_shape = Some [Some 1, Some 1, Some 2], shape = [1, 1, 2], entries = [Fin 3, Fin 1]\<rparr>
        \<lparr>attrs = [''policy_network'' \<mapsto> PStr ''random_policy''], hparam_types = Map.empty\<rparr>
        (Discrete 2)
   = Inr (\<lparr>static_shape = Some [Some 1, Some 1, Some 2], shape = [1, 1, 2],
             entries = [Fin (1 / 2), Fin (1 / 2)]\<rparr>,
          \<lparr>static_shape = Some [Some 1, Some 1], shape = [1, 1], entries = [Fin 0]\<rparr>)"
  by (simp add: get_policy_def getattr_py_def random_policy_registry_def shape_list_def
      enumerate_eq_zip RandomPolicy_body_def as_list_def get_num_actions_def truediv_def
      tf_constant_def filled_def double_two double_half single_half replicate_2)

lemma gaussian_example:
  "feed_forward_gaussian_fun plain_framework plain_network (Box [1])
        \<lparr>attrs = [''init_mean_factor'' \<mapsto> PFloat (1 / 10), ''init_logstd'' \<mapsto> PFloat (1 / 10)],
         hparam_types = Map.empty\<rparr>
        \<lparr>static_shape = Some [Some 1, Some 1, Some 2], shape = [1, 1, 2], entries = [Fin 3, Fin 1]\<rparr>
     = Inr \<lparr>static_shape = Some [Some 1, Some 1, Some 2], shape = [1, 1, 2], entries = [Fin 3, Fin 1]\<rparr>"
  by (simp add: feed_forward_gaussian_fun_def getattr_py_def tf_shape_at_def as_list_def
      plain_framework_def plain_network_def)

section \<open>Properties of the dense bitwise policy\<close>

text \<open>
  Claim C9. In \<open>DenseBitwiseCategoricalPolicy_body\<close> both outputs are computed from the
  128-unit layer applied to \<open>flat_x\<close>: the body equals the function in which the 256-unit
  layer is left out, and its result does not depend on the variables of the 256-unit
  layer.
\<close>

theorem dense_bitwise_ignores_256_layer:
  "DenseBitwiseCategoricalPolicy_body fw vars features = dense_bitwise_128_only fw vars features
   \<and> DenseBitwiseCategoricalPolicy_body fw (vars(''dense_bitwise/fully_connected'' := w)) features
       = DenseBitwiseCategoricalPolicy_body fw vars features"
  by (simp add: DenseBitwiseCategoricalPolicy_body_def dense_bitwise_128_only_def Let_def
      split: option.split sum.split)

section \<open>Properties of the environment factories\<close>

text \<open>
  Claim C7. The function returned by \<open>make_real_env_fn env\<close> returns the reference
  \<open>env\<close> itself and leaves the store as it is when applied to \<open>False\<close>; applied to
  \<open>True\<close> it returns a reference to a new \<^verbatim>\<open>PyFuncBatchEnv\<close> adapter that holds \<open>env\<close>,
  and every object that existed before, \<open>env\<close> included, is unchanged.
\<close>

theorem make_real_env_fn_identity:
  "make_real_env_fn env False s = (env, s)
   \<and> (\<exists>wrapped s'. make_real_env_fn env True s = (wrapped, s')
          \<and> wrapped = length s \<and> s' ! wrapped = PyFuncBatchEnv_obj env
          \<and> length s' = Suc (length s) \<and> take (length s) s' = s)"
  by (simp add: make_real_env_fn_def PyFuncBatchEnv_def)

text \<open>
  Claim C8. The function returned by \<open>make_simulated_env_fn\<close> calls the in-graph class
  on \<open>True\<close> and the Gym class on \<open>False\<close>, each with the very keyword arguments it was
  made with. With constructors that share their keyword parameters, keyword arguments
  that bind make both calls succeed, and keyword arguments that do not bind make both
  calls fail with the same error; when a required argument is missing (and no keyword is
  unexpected) that error is the TypeError that names the missing arguments.
\<close>

theorem make_simulated_env_fn_same_kwargs:
  "make_simulated_env_fn cls_in_graph cls_gym env_kwargs True = cls_in_graph env_kwargs
   \<and> make_simulated_env_fn cls_in_graph cls_gym env_kwargs False = cls_gym env_kwargs
   \<and> (bind_kwargs sg kwargs = None \<longrightarrow>
        make_simulated_env_fn (SimulatedBatchEnv sg) (SimulatedBatchGymEnv sg) kwargs True
          = Inr (SimulatedBatchEnv_obj kwargs)
        \<and> make_simulated_env_fn (SimulatedBatchEnv sg) (SimulatedBatchGymEnv sg) kwargs False
          = Inr (SimulatedBatchGymEnv_obj kwargs))
   \<and> (\<forall>e. bind_kwargs sg kwargs = Some e \<longrightarrow>
        make_simulated_env_fn (SimulatedBatchEnv sg) (SimulatedBatchGymEnv sg) kwargs True = Inl e
        \<and> make_simulated_env_fn (SimulatedBatchEnv sg) (SimulatedBatchGymEnv sg) kwargs False
          = Inl e)
   \<and> ((\<forall>k \<in> set (map fst kwargs). k \<in> set (required sg) \<or> k \<in> set (optional sg))
        \<and> (\<exists>k \<in> set (required sg). k \<notin> set (map fst kwargs)) \<longrightarrow>
        (\<exists>msg. make_simulated_env_fn (SimulatedBatchEnv sg) (SimulatedBatchGymEnv sg) kwargs True
                 = Inl (TypeError msg)
             \<and> make_simulated_env_fn (SimulatedBatchEnv sg) (SimulatedBatchGymEnv sg) kwargs
                 False = Inl (TypeError msg)))"
proof (intro conjI impI allI)
  show "make_simulated_env_fn cls_in_graph cls_gym env_kwargs True = cls_in_graph env_kwargs"
    by (simp add: make_simulated_env_fn_def)
  show "make_simulated_env_fn cls_in_graph cls_gym env_kwargs False = cls_gym env_kwargs"
    by (simp add: make_simulated_env_fn_def)
next
  assume "bind_kwargs sg kwargs = None"
  then show "make_simulated_env_fn (SimulatedBatchEnv sg) (SimulatedBatchGymEnv sg) kwargs True
          = Inr (SimulatedBatchEnv_obj kwargs)"
    and "make_simulated_env_fn (SimulatedBatchEnv sg) (SimulatedBatchGymEnv sg) kwargs False
          = Inr (SimulatedBatchGymEnv_obj kwargs)"
    by (simp_all add: make_simulated_env_fn_def SimulatedBatchEnv_def SimulatedBatchGymEnv_def)
next
  fix e assume "bind_kwargs sg kwargs = Some e"
  then show "make_simulated_env_fn (SimulatedBatchEnv sg) (SimulatedBatchGymEnv sg) kwargs True
          = Inl e"
    and "make_simulated_env_fn (SimulatedBatchEnv sg) (SimulatedBatchGymEnv sg) kwargs False
          = Inl e"
    by (simp_all add: make_simulated_env_fn_def SimulatedBatchEnv_def SimulatedBatchGymEnv_def)
next
  assume a: "(\<forall>k \<in> set (map fst kwargs). k \<in> set (required sg) \<or> k \<in> set (optional sg))
        \<and> (\<exists>k \<in> set (required sg). k \<notin> set (map fst kwargs))"
  then have f1: "filter (\<lambda>k. k \<notin> set (required sg) \<and> k \<notin> set (optional sg)) (map fst kwargs) = []"
    by (auto simp: filter_empty_conv)
  from a obtain m ms where
    f2: "filter (\<lambda>k. k \<notin> set (map fst kwargs)) (required sg) = m # ms"
    by (cases "filter (\<lambda>k. k \<notin> set (map fst kwargs)) (required sg)")
       (auto simp: filter_empty_conv)
  have "bind_kwargs sg kwargs
      = Some (TypeError (''__init__() missing required arguments:''
                @ concat (map (\<lambda>m. '' '' @ m) (m # ms))))"
    unfolding bind_kwargs_def by (simp only: f1 f2 list.case)
  then obtain msg where "bind_kwargs sg kwargs = Some (TypeError msg)" by blast
  then show "\<exists>msg. make_simulated_env_fn (SimulatedBatchEnv sg) (SimulatedBatchGymEnv sg) kwargs True
                 = Inl (TypeError msg)
             \<and> make_simulated_env_fn (SimulatedBatchEnv sg) (SimulatedBatchGymEnv sg) kwargs
                 False = Inl (TypeError msg)"
    by (auto simp: make_simulated_env_fn_def SimulatedBatchEnv_def SimulatedBatchGymEnv_def)
qed

theorem make_simulated_env_fn_same_kwargs_witness:
  "bind_kwargs \<lparr>required = [''batch_size'', ''model_dir''], optional = [''sim_video_dir'']\<rparr>
      [(''batch_size'', 16::int), (''model_dir'', 0)] = None
   \<and> make_simulated_env_fn
        (SimulatedBatchEnv \<lparr>required = [''batch_size'', ''model_dir''], optional = [''sim_video_dir'']\<rparr>)
        (SimulatedBatchGymEnv \<lparr>required = [''batch_size'', ''model_dir''], optional = [''sim_video_dir'']\<rparr>)
        [(''batch_size'', 16::int), (''model_dir'', 0)] True
      = Inr (SimulatedBatchEnv_obj [(''batch_size'', 16), (''model_dir'', 0)])
   \<and> make_simulated_env_fn
        (SimulatedBatchEnv \<lparr>required = [''batch_size'', ''model_dir''], optional = [''sim_video_dir'']\<rparr>)
        (SimulatedBatchGymEnv \<lparr>required = [''batch_size'', ''model_dir''], optional = [''sim_video_dir'']\<rparr>)
        [(''batch_size'', 16::int), (''model_dir'', 0)] False
      = Inr (SimulatedBatchGymEnv_obj [(''batch_size'', 16), (''model_dir'', 0)])
   \<and> bind_kwargs \<lparr>required = [''batch_size'', ''model_dir''], optional = [''sim_video_dir'']\<rparr>
      [(''batch_size'', 16::int)]
      = Some (TypeError ''__init__() missing required arguments: model_dir'')
   \<and> make_simulated_env_fn
        (SimulatedBatchEnv \<lparr>required = [''batch_size'', ''model_dir''], optional = [''sim_video_dir'']\<rparr>)
        (SimulatedBatchGymEnv \<lparr>required = [''batch_size'', ''model_dir''], optional = [''sim_video_dir'']\<rparr>)
        [(''batch_size'', 16::int)] True
      = Inl (TypeError ''__init__() missing required arguments: model_dir'')
   \<and> make_simulated_env_fn
        (SimulatedBatchEnv \<lparr>required = [''batch_size'', ''model_dir''], optional = [''sim_video_dir'']\<rparr>)
        (SimulatedBatchGymEnv \<lparr>required = [''batch_size'', ''model_dir''], optional = [''sim_video_dir'']\<rparr>)
        [(''batch_size'', 16::int)] False
      = Inl (TypeError ''__init__() missing required arguments: model_dir'')"
proof -
  let ?sg = "\<lparr>required = [''batch_size'', ''model_dir''], optional = [''sim_video_dir'']\<rparr>"
  let ?ok = "[(''batch_size'', 16::int), (''model_dir'', 0)]"
  let ?bad = "[(''batch_size'', 16::int)]"
  have ok: "bind_kwargs ?sg ?ok = None" by (simp add: bind_kwargs_def)
  have bad: "bind_kwargs ?sg ?bad
      = Some (TypeError ''__init__() missing required arguments: model_dir'')"
    by (simp add: bind_kwargs_def)
  note t1 = make_simulated_env_fn_same_kwargs [of "SimulatedBatchEnv ?sg"
      "SimulatedBatchGymEnv ?sg" ?ok ?sg ?ok]
  note t2 = make_simulated_env_fn_same_kwargs [of "SimulatedBatchEnv ?sg"
      "SimulatedBatchGymEnv ?sg" ?bad ?sg ?bad]
  from t1 ok have a: "make_simulated_env_fn (SimulatedBatchEnv ?sg) (SimulatedBatchGymEnv ?sg)
      ?ok True = Inr (SimulatedBatchEnv_obj ?ok)
    \<and> make_simulated_env_fn (SimulatedBatchEnv ?sg) (SimulatedBatchGymEnv ?sg)
      ?ok False = Inr (SimulatedBatchGymEnv_obj ?ok)" by blast
  from t2 bad have b: "make_simulated_env_fn (SimulatedBatchEnv ?sg) (SimulatedBatchGymEnv ?sg)
      ?bad True = Inl (TypeError ''__init__() missing required arguments: model_dir'')
    \<and> make_simulated_env_fn (SimulatedBatchEnv ?sg) (SimulatedBatchGymEnv ?sg)
      ?bad False = Inl (TypeError ''__init__() missing required arguments: model_dir'')"
    by blast
  from ok bad a b show ?thesis by blast
qed

end
